theory Spec2Isabelle
  imports Main "HOL-Library.AList"
begin

section \<open>Values, exceptions and the outside world\<close>

text \<open>
  The program is \<^verbatim>\<open>helpers.py\<close>: a pipeline of five functions
  (\<^verbatim>\<open>generate_app\<close>, \<^verbatim>\<open>create_repo\<close>, \<^verbatim>\<open>upload_files_to_repo\<close>,
  \<^verbatim>\<open>enable_pages\<close>, \<^verbatim>\<open>notify_evaluation\<close>) run in order by
  \<^verbatim>\<open>process_request\<close>. Every function talks to the outside: the local file
  system, the generation service, the repository host and plain HTTP. The model makes
  each of these explicit. State (the Working Directory, a repository, the account, the
  notification payload) is passed in and returned; what the outside answers is a
  parameter; what the program asks of the outside is returned as a list of events in the
  order of the calls; an exception that leaves a function is the \<open>Inl\<close> of its result.
\<close>

text \<open>Python values as they occur in JSON bodies and in the notification payload.\<close>

datatype pyval =
    PNone
  | PBool bool
  | PInt int
  | PStr string
  | PList "pyval list"
  | PDict "(string \<times> pyval) list"

text \<open>Python's truth value, as tested by \<^verbatim>\<open>if x\<close> and \<^verbatim>\<open>not x\<close>.\<close>

fun truthy :: "pyval \<Rightarrow> bool" where
  "truthy PNone = False"
| "truthy (PBool b) = b"
| "truthy (PInt n) = (n \<noteq> 0)"
| "truthy (PStr s) = (s \<noteq> [])"
| "truthy (PList xs) = (xs \<noteq> [])"
| "truthy (PDict kvs) = (kvs \<noteq> [])"

text \<open>A dictionary is an association list with one entry per key, in insertion order.\<close>

type_synonym pydict = "(string \<times> pyval) list"

text \<open>\<^verbatim>\<open>d.get(k)\<close> and \<^verbatim>\<open>d.get(k, default)\<close>.\<close>

definition dict_get :: "pydict \<Rightarrow> string \<Rightarrow> pyval" where
  "dict_get d k = (case map_of d k of None \<Rightarrow> PNone | Some v \<Rightarrow> v)"

definition dict_get_default :: "pydict \<Rightarrow> string \<Rightarrow> pyval \<Rightarrow> pyval" where
  "dict_get_default d k dflt = (case map_of d k of None \<Rightarrow> dflt | Some v \<Rightarrow> v)"

text \<open>
  The exceptions that can leave a function of the program. \<open>GithubException\<close> carries
  the HTTP status of the repository host's answer; \<open>RequestException\<close> is the
  transport-level failure of \<^verbatim>\<open>requests\<close>; \<open>APIError\<close> is a failure of the
  generation service; the last five are what opening, reading and writing a file can
  raise.
\<close>

datatype exn =
    ValueError
  | BinasciiError
  | FileNotFoundError
  | JSONDecodeError
  | KeyError
  | AttributeError
  | TypeError
  | APIError
  | RequestException
  | GithubException nat
  | UnicodeDecodeError
  | UnicodeEncodeError
  | IsADirectoryError
  | NotADirectoryError
  | OSError

text \<open>
  A text that is meant to be JSON is represented by what \<^verbatim>\<open>json.loads\<close> makes of
  it: either it does not parse, or it parses to a value.
\<close>

datatype content = NotJSON string | JSON pyval

definition json_loads :: "content \<Rightarrow> exn + pyval" where
  "json_loads c = (case c of NotJSON _ \<Rightarrow> Inl JSONDecodeError | JSON v \<Rightarrow> Inr v)"

text \<open>HTTP as seen through \<^verbatim>\<open>requests\<close>.\<close>

datatype request = POST pyval pyval | GET pyval

record response =
  status_code :: nat
  body :: content

text \<open>
  The network answers the \<open>i\<close>-th request of a call either with a response or with an
  exception raised inside \<^verbatim>\<open>requests.post\<close> / \<^verbatim>\<open>requests.get\<close>.
\<close>

type_synonym network = "nat \<Rightarrow> request \<Rightarrow> exn + response"

text \<open>What the program asks of the outside, in order.\<close>

datatype event =
    Completion string
  | Request request
  | Sleep nat

fun is_post :: "event \<Rightarrow> bool" where
  "is_post (Request (POST _ _)) = True"
| "is_post _ = False"

section \<open>The Working Directory\<close>

text \<open>
  The directory \<^verbatim>\<open>task-<task_id>\<close>, on a POSIX file system that compares names byte
  for byte. It exists once \<^verbatim>\<open>os.makedirs\<close> has run, and it holds regular files only:
  the program creates nothing else in it. The model keeps the files of the directory by
  their names with their bytes; \<^verbatim>\<open>os.listdir\<close> lists them in the directory's own
  order.
\<close>

type_synonym bytes = string

type_synonym workdir = "(string \<times> bytes) list"

text \<open>
  The program opens \<^verbatim>\<open>os.path.join(task_dir, file_name)\<close>. What that path denotes is
  settled by the model only for a plain name: a name of at most 255 printable ASCII
  characters without a separator, other than \<^verbatim>\<open>.\<close> and \<^verbatim>\<open>..\<close>. Such a path
  denotes the file of that name in the directory. For every other name (one with a
  separator, \<^verbatim>\<open>./x\<close>, \<^verbatim>\<open>sub/x\<close>, \<^verbatim>\<open>../x\<close>, an absolute path, a name with
  other bytes) the file system answers: the opening raises, or it opens a file of the
  directory (\<open>Some\<close> of its name), or it opens a file outside the directory (\<open>None\<close>).

  The same holds for text. A text of ASCII characters without a carriage return is
  stored as its own bytes by a file opened in text mode, and read back as itself; for
  every other text or content the platform answers (the locale's encoding and the
  translation of line ends decide), and it may raise.
\<close>

record file_system =
  open_other :: "workdir \<Rightarrow> string \<Rightarrow> exn + string option"
  encode_other :: "string \<Rightarrow> exn + bytes"
  decode_other :: "bytes \<Rightarrow> exn + string"

definition printable :: "char \<Rightarrow> bool" where
  "printable c = (32 \<le> (of_char c :: nat) \<and> (of_char c :: nat) < 127)"

definition plain_name :: "string \<Rightarrow> bool" where
  "plain_name n =
     (n \<noteq> [] \<and> n \<noteq> ''.'' \<and> n \<noteq> ''..'' \<and> length n \<le> 255 \<and>
      list_all (\<lambda>c. printable c \<and> c \<noteq> CHR ''/'') n)"

definition safe_text :: "string \<Rightarrow> bool" where
  "safe_text s = list_all (\<lambda>c. (of_char c :: nat) < 128 \<and> c \<noteq> CHR 0x0D) s"

text \<open>The file \<open>n\<close> of the directory gets the bytes \<open>data\<close>: created or replaced.\<close>

definition put_file :: "workdir \<Rightarrow> string \<Rightarrow> bytes \<Rightarrow> workdir" where
  "put_file wd n data = AList.update n data wd"

text \<open>\<^verbatim>\<open>open(os.path.join(task_dir, file_name), "wb")\<close>: what is opened, if anything.\<close>

definition open_for_write :: "file_system \<Rightarrow> workdir \<Rightarrow> string \<Rightarrow> exn + string option" where
  "open_for_write fs wd file_name =
     (if plain_name file_name then Inr (Some file_name) else open_other fs wd file_name)"

text \<open>
  Lines 65 and 66: the file is opened and the bytes are written. A failed opening writes
  nothing; a file outside the directory leaves the directory as it is.
\<close>

definition write_binary ::
  "file_system \<Rightarrow> workdir \<Rightarrow> string \<Rightarrow> bytes \<Rightarrow> (exn + unit) \<times> workdir" where
  "write_binary fs wd file_name data =
     (case open_for_write fs wd file_name of
        Inl e \<Rightarrow> (Inl e, wd)
      | Inr None \<Rightarrow> (Inr (), wd)
      | Inr (Some n) \<Rightarrow> (Inr (), put_file wd n data))"

text \<open>What a file opened in text mode stores for a text, and gives for its bytes.\<close>

definition encode_text :: "file_system \<Rightarrow> string \<Rightarrow> exn + bytes" where
  "encode_text fs s = (if safe_text s then Inr s else encode_other fs s)"

definition decode_text :: "file_system \<Rightarrow> bytes \<Rightarrow> exn + string" where
  "decode_text fs bs = (if safe_text bs then Inr bs else decode_other fs bs)"

text \<open>
  Lines 82 and 83: \<^verbatim>\<open>index.html\<close>, a plain name, is opened in text mode and read. A
  file that is not there raises \<open>FileNotFoundError\<close>.
\<close>

definition read_index_html :: "file_system \<Rightarrow> workdir \<Rightarrow> exn + string" where
  "read_index_html fs wd =
     (case map_of wd ''index.html'' of
        None \<Rightarrow> Inl FileNotFoundError
      | Some bs \<Rightarrow> decode_text fs bs)"

section \<open>Content Generator: \<^verbatim>\<open>generate_app\<close>\<close>

text \<open>
  An attachment is a dictionary with the optional string entries \<^verbatim>\<open>name\<close> and
  \<^verbatim>\<open>url\<close>; \<^verbatim>\<open>attachment.get\<close> gives \<^verbatim>\<open>None\<close> for an absent one.
\<close>

record attachment =
  name :: "string option"
  url :: "string option"

text \<open>\<^verbatim>\<open>if file_name and data_uri\<close>: present and not the empty string.\<close>

definition present :: "string option \<Rightarrow> bool" where
  "present x = (case x of None \<Rightarrow> False | Some s \<Rightarrow> s \<noteq> [])"

text \<open>\<^verbatim>\<open>s.split(sep, 1)\<close>: one piece when there is no separator, two otherwise.\<close>

definition split1 :: "char \<Rightarrow> string \<Rightarrow> string list" where
  "split1 sep s =
     (case dropWhile (\<lambda>c. c \<noteq> sep) s of
        [] \<Rightarrow> [s]
      | _ # rest \<Rightarrow> [takeWhile (\<lambda>c. c \<noteq> sep) s, rest])"

text \<open>
  The loop over the attachments (lines 59 to 66). The unpacking
  \<^verbatim>\<open>header, encoded = data_uri.split(",", 1)\<close> raises \<open>ValueError\<close> unless the split
  gives two pieces. \<^verbatim>\<open>base64.b64decode\<close> is the parameter \<open>b64decode\<close>; it
  raises on a payload it cannot decode. The file is opened after decoding, so an
  attachment that fails before that writes nothing; an exception of the opening leaves
  the function as well.
\<close>

fun store_attachments ::
  "(string \<Rightarrow> exn + bytes) \<Rightarrow> file_system \<Rightarrow> attachment list \<Rightarrow> workdir \<Rightarrow>
   (exn + unit) \<times> workdir" where
  "store_attachments b64decode fs [] wd = (Inr (), wd)"
| "store_attachments b64decode fs (a # rest) wd =
     (case (name a, url a) of
        (Some file_name, Some data_uri) \<Rightarrow>
          if file_name \<noteq> [] \<and> data_uri \<noteq> [] then
            (case split1 CHR '','' data_uri of
               [header, encoded] \<Rightarrow>
                 (case b64decode encoded of
                    Inl e \<Rightarrow> (Inl e, wd)
                  | Inr data \<Rightarrow>
                      (case write_binary fs wd file_name data of
                         (Inl e, wd1) \<Rightarrow> (Inl e, wd1)
                       | (Inr _, wd1) \<Rightarrow> store_attachments b64decode fs rest wd1))
             | _ \<Rightarrow> (Inl ValueError, wd))
          else store_attachments b64decode fs rest wd
      | _ \<Rightarrow> store_attachments b64decode fs rest wd)"

text \<open>The instruction of lines 68 to 80, with the brief spliced in.\<close>

definition base_prompt :: "string \<Rightarrow> string" where
  "base_prompt brief =
     ''\<newline>You are an expert web developer. Your task is to build a single-page web application based on the following brief:\<newline>''
   @ ''\<newline>**Brief:** '' @ brief @ ''\<newline>''
   @ ''\<newline>**Instructions:**\<newline>''
   @ ''1.  Create a single `index.html` file.\<newline>''
   @ ''2.  You can use HTML, CSS, and JavaScript.\<newline>''
   @ ''3.  If CSS or JavaScript is needed, embed it directly into the `index.html` file.\<newline>''
   @ ''4.  The application should be self-contained in this single file.\<newline>''
   @ ''5.  Do not use any external libraries unless specified in the brief.\<newline>''
   @ ''6.  The output should be a JSON object with a single key '' @ [CHR 0x22] @ ''html'' @ [CHR 0x22]
   @ '' and the value as the complete HTML code.\<newline>''"

text \<open>The extension of line 84.\<close>

definition revision_suffix :: "string \<Rightarrow> string" where
  "revision_suffix existing_html =
     ''\<newline>**Existing HTML (for revision):**\<newline>```html\<newline>'' @ existing_html @ ''\<newline>```''"

text \<open>The document of line 101.\<close>

definition fallback_html :: string where
  "fallback_html = ''<html><body>Error generating content.</body></html>''"

text \<open>
  Lines 81 to 84: for a round above 1 the current \<^verbatim>\<open>index.html\<close> is read from the
  Working Directory (as it is after the attachments have been written) and appended.
\<close>

definition build_prompt :: "file_system \<Rightarrow> string \<Rightarrow> int \<Rightarrow> workdir \<Rightarrow> exn + string" where
  "build_prompt fs brief round_num wd =
     (if round_num > 1 then
        (case read_index_html fs wd of
           Inl e \<Rightarrow> Inl e
         | Inr existing_html \<Rightarrow> Inr (base_prompt brief @ revision_suffix existing_html))
      else Inr (base_prompt brief))"

text \<open>
  Lines 97 to 101. Only \<open>JSONDecodeError\<close> and \<open>KeyError\<close> are caught. A parsed
  value that is not a dictionary has no \<^verbatim>\<open>get\<close>: \<open>AttributeError\<close> leaves the
  function. A dictionary without the key gives the default of \<^verbatim>\<open>get\<close>, the empty
  string, and nothing is raised.
\<close>

definition parse_html :: "content \<Rightarrow> exn + pyval" where
  "parse_html c =
     (case json_loads c of
        Inl e \<Rightarrow> if e = JSONDecodeError \<or> e = KeyError then Inr (PStr fallback_html) else Inl e
      | Inr output \<Rightarrow>
          (case output of
             PDict kvs \<Rightarrow> Inr (dict_get_default kvs ''html'' (PStr []))
           | _ \<Rightarrow> Inl AttributeError))"

text \<open>
  Lines 104 and 105. Opening with mode \<^verbatim>\<open>"w"\<close> empties the file before
  \<^verbatim>\<open>f.write\<close> runs; \<^verbatim>\<open>f.write\<close> raises \<open>TypeError\<close> on a value that is not
  a string, and what the encoding of the text raises.
\<close>

definition write_html :: "file_system \<Rightarrow> workdir \<Rightarrow> pyval \<Rightarrow> (exn + unit) \<times> workdir" where
  "write_html fs wd html_content =
     (case html_content of
        PStr s \<Rightarrow>
          (case encode_text fs s of
             Inl e \<Rightarrow> (Inl e, put_file wd ''index.html'' [])
           | Inr bs \<Rightarrow> (Inr (), put_file wd ''index.html'' bs))
      | _ \<Rightarrow> (Inl TypeError, put_file wd ''index.html'' []))"

text \<open>
  \<^verbatim>\<open>generate_app(brief, attachments, task_id, round_num)\<close>. The generation service is
  the parameter \<open>llm\<close>: given the instruction it returns the content of the first
  choice's message, or raises; \<open>fs\<close> is the file system. The result is the outcome, the
  Working Directory afterwards and the requests made.
\<close>

definition generate_app ::
  "(string \<Rightarrow> exn + bytes) \<Rightarrow> file_system \<Rightarrow> (string \<Rightarrow> exn + content) \<Rightarrow>
   string \<Rightarrow> attachment list \<Rightarrow> string \<Rightarrow> int \<Rightarrow> workdir \<Rightarrow>
   (exn + unit) \<times> workdir \<times> event list" where
  "generate_app b64decode fs llm brief attachments task_id round_num wd =
     (case store_attachments b64decode fs attachments wd of
        (Inl e, wd1) \<Rightarrow> (Inl e, wd1, [])
      | (Inr _, wd1) \<Rightarrow>
          (case build_prompt fs brief round_num wd1 of
             Inl e \<Rightarrow> (Inl e, wd1, [])
           | Inr prompt \<Rightarrow>
               (case llm prompt of
                  Inl e \<Rightarrow> (Inl e, wd1, [Completion prompt])
                | Inr c \<Rightarrow>
                    (case parse_html c of
                       Inl e \<Rightarrow> (Inl e, wd1, [Completion prompt])
                     | Inr html_content \<Rightarrow>
                         (case write_html fs wd1 html_content of
                            (r, wd2) \<Rightarrow> (r, wd2, [Completion prompt]))))))"

section \<open>Artifact Store Adapter: the repository host\<close>

text \<open>
  A repository on the host: its full name, the files at the head of branch
  \<^verbatim>\<open>main\<close> by path, and the history, newest commit first. A commit is named by its
  position in the history, which stands for its hash.
\<close>

record commit =
  message :: string
  sha :: nat

record repo =
  full_name :: string
  files :: "(string \<times> string) list"
  commits :: "commit list"

text \<open>
  The hash of a file's content, which a conditional update has to present. It is a
  function of the content; the model takes the content itself.
\<close>

definition blob_sha :: "string \<Rightarrow> string" where
  "blob_sha data = data"

definition push_commit :: "string \<Rightarrow> repo \<Rightarrow> commit list" where
  "push_commit msg r = \<lparr>message = msg, sha = length (commits r)\<rparr> # commits r"

text \<open>
  The three file operations of the host, as the client library reports them: reading a
  path that does not exist fails with status 404, creating a path that exists fails with
  status 422, and updating needs the hash of the content that is there (status 409
  otherwise). Each successful write is one commit. Failures of the transport to the host
  are outside the model.
\<close>

definition repo_get_contents :: "string \<Rightarrow> repo \<Rightarrow> exn + string \<times> string" where
  "repo_get_contents path r =
     (case map_of (files r) path of
        None \<Rightarrow> Inl (GithubException 404)
      | Some data \<Rightarrow> Inr (path, blob_sha data))"

definition repo_create_file :: "string \<Rightarrow> string \<Rightarrow> string \<Rightarrow> repo \<Rightarrow> exn + repo" where
  "repo_create_file path msg data r =
     (case map_of (files r) path of
        Some _ \<Rightarrow> Inl (GithubException 422)
      | None \<Rightarrow> Inr (r\<lparr>files := files r @ [(path, data)], commits := push_commit msg r\<rparr>))"

definition repo_update_file ::
  "string \<Rightarrow> string \<Rightarrow> string \<Rightarrow> string \<Rightarrow> repo \<Rightarrow> exn + repo" where
  "repo_update_file path msg data file_sha r =
     (case map_of (files r) path of
        None \<Rightarrow> Inl (GithubException 404)
      | Some old \<Rightarrow>
          if blob_sha old = file_sha
          then Inr (r\<lparr>files := AList.update path data (files r), commits := push_commit msg r\<rparr>)
          else Inl (GithubException 409))"

text \<open>\<^verbatim>\<open>repo.get_commits()[0]\<close>: the host refuses to list an empty history.\<close>

definition repo_head_commit :: "repo \<Rightarrow> exn + commit" where
  "repo_head_commit r = (case commits r of [] \<Rightarrow> Inl (GithubException 409) | c # _ \<Rightarrow> Inr c)"

text \<open>
  The account of the token's user: its login and its repositories by name.
  \<open>create_fault\<close> is a failure of the creation request for a reason other than the
  name (bad credentials, the host or the transport down), when there is one.
\<close>

record account =
  login :: string
  repos :: "(string \<times> repo) list"
  create_fault :: "exn option"

datatype api_call = CreateRepo string | GetRepo string

definition user_create_repo :: "string \<Rightarrow> account \<Rightarrow> (exn + repo) \<times> account" where
  "user_create_repo repo_name acct =
     (case create_fault acct of
        Some e \<Rightarrow> (Inl e, acct)
      | None \<Rightarrow>
          (case map_of (repos acct) repo_name of
             Some _ \<Rightarrow> (Inl (GithubException 422), acct)
           | None \<Rightarrow>
               (let r = \<lparr>full_name = login acct @ ''/'' @ repo_name, files = [], commits = []\<rparr>
                in (Inr r, acct\<lparr>repos := repos acct @ [(repo_name, r)]\<rparr>))))"

definition user_get_repo :: "string \<Rightarrow> account \<Rightarrow> exn + repo" where
  "user_get_repo repo_name acct =
     (case map_of (repos acct) repo_name of
        None \<Rightarrow> Inl (GithubException 404)
      | Some r \<Rightarrow> Inr r)"

text \<open>\<^verbatim>\<open>e.status\<close>: only the host's exception has the attribute.\<close>

definition exn_status :: "exn \<Rightarrow> nat option" where
  "exn_status e = (case e of GithubException s \<Rightarrow> Some s | _ \<Rightarrow> None)"

definition task_repo_name :: "string \<Rightarrow> string" where
  "task_repo_name task_id = ''task-'' @ task_id"

text \<open>
  \<^verbatim>\<open>create_repo(task_id)\<close>, lines 107 to 122. The result is the outcome, the account
  afterwards and the calls made to the host.
\<close>

definition create_repo :: "string \<Rightarrow> account \<Rightarrow> (exn + repo) \<times> account \<times> api_call list" where
  "create_repo task_id acct =
     (let repo_name = task_repo_name task_id in
      case user_create_repo repo_name acct of
        (Inr r, acct1) \<Rightarrow> (Inr r, acct1, [CreateRepo repo_name])
      | (Inl e, acct1) \<Rightarrow>
          (case exn_status e of
             None \<Rightarrow> (Inl AttributeError, acct1, [CreateRepo repo_name])
           | Some s \<Rightarrow>
               if s = 422
               then (user_get_repo repo_name acct1, acct1, [CreateRepo repo_name, GetRepo repo_name])
               else (Inl e, acct1, [CreateRepo repo_name])))"

text \<open>
  Lines 28 to 31 of \<^verbatim>\<open>process_request\<close>: the repository of the task is created in
  round 1 and looked up in every other round.
\<close>

definition ensure_repository ::
  "string \<Rightarrow> int \<Rightarrow> account \<Rightarrow> (exn + repo) \<times> account \<times> api_call list" where
  "ensure_repository task_id round_num acct =
     (if round_num = 1 then create_repo task_id acct
      else (user_get_repo (task_repo_name task_id) acct, acct, [GetRepo (task_repo_name task_id)]))"

text \<open>The readme of lines 135 to 149.\<close>

definition readme_content :: "string \<Rightarrow> string" where
  "readme_content task_id =
     ''\<newline># '' @ task_id @ ''\<newline>''
   @ ''\<newline>## Summary\<newline>''
   @ ''This project is an auto-generated web application based on a provided brief.\<newline>''
   @ ''\<newline>## Setup\<newline>''
   @ ''To run this application, simply open the `index.html` file in your web browser.\<newline>''
   @ ''\<newline>## Code Explanation\<newline>''
   @ ''The `index.html` file contains the entire application, including the HTML structure, CSS styling, and JavaScript logic.\<newline>''
   @ ''\<newline>## License\<newline>''
   @ ''This project is licensed under the MIT License.\<newline>''"

text \<open>
  One turn of the loop of lines 153 to 163: look the file up and update it with the hash
  found; on any exception of either step, create it. An exception of the creation leaves
  the function, with the repository as it then is.
\<close>

definition upload_file :: "string \<Rightarrow> string \<Rightarrow> repo \<Rightarrow> (exn + unit) \<times> repo" where
  "upload_file file_name data r =
     (case (case repo_get_contents file_name r of
              Inl e \<Rightarrow> Inl e
            | Inr (path, file_sha) \<Rightarrow>
                repo_update_file path (''Update '' @ file_name) data file_sha r) of
        Inr r1 \<Rightarrow> (Inr (), r1)
      | Inl _ \<Rightarrow>
          (case repo_create_file file_name (''Add '' @ file_name) data r of
             Inl e \<Rightarrow> (Inl e, r)
           | Inr r1 \<Rightarrow> (Inr (), r1)))"

fun upload_loop :: "workdir \<Rightarrow> repo \<Rightarrow> (exn + unit) \<times> repo" where
  "upload_loop [] r = (Inr (), r)"
| "upload_loop ((file_name, data) # rest) r =
     (case upload_file file_name data r of
        (Inl e, r1) \<Rightarrow> (Inl e, r1)
      | (Inr _, r1) \<Rightarrow> upload_loop rest r1)"

text \<open>Lines 130 to 150: the two files written in round 1, each with a plain creation.\<close>

definition upload_bootstrap :: "string \<Rightarrow> repo \<Rightarrow> (exn + unit) \<times> repo" where
  "upload_bootstrap task_id r =
     (case repo_create_file ''LICENSE'' ''Add LICENSE'' ''MIT License'' r of
        Inl e \<Rightarrow> (Inl e, r)
      | Inr r1 \<Rightarrow>
          (case repo_create_file ''README.md'' ''Add README'' (readme_content task_id) r1 of
             Inl e \<Rightarrow> (Inl e, r1)
           | Inr r2 \<Rightarrow> (Inr (), r2)))"

text \<open>
  \<^verbatim>\<open>upload_files_to_repo(task_id, repo, round_num)\<close>, with the Working Directory of
  the task as it is listed and read by the loop. The result is the outcome and the
  repository afterwards.
\<close>

definition upload_files_to_repo ::
  "string \<Rightarrow> repo \<Rightarrow> int \<Rightarrow> workdir \<Rightarrow> (exn + commit) \<times> repo" where
  "upload_files_to_repo task_id r round_num wd =
     (case (if round_num = 1 then upload_bootstrap task_id r else (Inr (), r)) of
        (Inl e, r1) \<Rightarrow> (Inl e, r1)
      | (Inr _, r1) \<Rightarrow>
          (case upload_loop wd r1 of
             (Inl e, r2) \<Rightarrow> (Inl e, r2)
           | (Inr _, r2) \<Rightarrow> (repo_head_commit r2, r2)))"

section \<open>Hosting Publisher: \<^verbatim>\<open>enable_pages\<close>\<close>

definition pages_endpoint :: "repo \<Rightarrow> pyval" where
  "pages_endpoint r = PStr (''https://api.github.com/repos/'' @ full_name r @ ''/pages'')"

definition pages_source :: pyval where
  "pages_source = PDict [(''source'', PDict [(''branch'', PStr ''main''), (''path'', PStr ''/'')])]"

text \<open>\<^verbatim>\<open>response.json().get('html_url')\<close>.\<close>

definition response_html_url :: "response \<Rightarrow> exn + pyval" where
  "response_html_url resp =
     (case json_loads (body resp) of
        Inl e \<Rightarrow> Inl e
      | Inr v \<Rightarrow> (case v of PDict kvs \<Rightarrow> Inr (dict_get kvs ''html_url'') | _ \<Rightarrow> Inl AttributeError))"

text \<open>
  \<^verbatim>\<open>enable_pages(repo)\<close>, lines 167 to 194. The function has no handler: whatever
  \<^verbatim>\<open>requests.post\<close>, \<^verbatim>\<open>requests.get\<close> or \<^verbatim>\<open>response.json\<close> raises leaves it.
  The request headers play no part in what follows and are left out.
\<close>

definition enable_pages :: "network \<Rightarrow> repo \<Rightarrow> (exn + pyval) \<times> event list" where
  "enable_pages net r =
     (let url = pages_endpoint r; enable = Request (POST url pages_source) in
      case net 0 (POST url pages_source) of
        Inl e \<Rightarrow> (Inl e, [enable])
      | Inr resp \<Rightarrow>
          if status_code resp = 201 then (response_html_url resp, [enable, Sleep 10])
          else
            (case net 1 (GET url) of
               Inl e \<Rightarrow> (Inl e, [enable, Request (GET url)])
             | Inr resp2 \<Rightarrow>
                 if status_code resp2 = 200
                 then (response_html_url resp2, [enable, Request (GET url)])
                 else (Inr PNone, [enable, Request (GET url)])))"

section \<open>Notifier: \<^verbatim>\<open>notify_evaluation\<close>\<close>

text \<open>\<^verbatim>\<open>del d[k]\<close>.\<close>

definition dict_del :: "pydict \<Rightarrow> string \<Rightarrow> exn + pydict" where
  "dict_del d k = (case map_of d k of None \<Rightarrow> Inl KeyError | Some _ \<Rightarrow> Inr (AList.delete k d))"

text \<open>
  The loop of lines 206 to 217: \<open>i\<close> is the number of the attempt, the fourth argument
  counts the attempts that remain. Only \<open>RequestException\<close> is caught; after a caught
  exception or a status other than 200 the function sleeps and doubles the delay, also
  after the last attempt.
\<close>

fun notify_attempts ::
  "network \<Rightarrow> request \<Rightarrow> nat \<Rightarrow> nat \<Rightarrow> nat \<Rightarrow> (exn + unit) \<times> event list" where
  "notify_attempts net req i 0 delay = (Inr (), [])"
| "notify_attempts net req i (Suc k) delay =
     (case net i req of
        Inr resp \<Rightarrow>
          if status_code resp = 200 then (Inr (), [Request req])
          else
            (case notify_attempts net req (Suc i) k (delay * 2) of
               (res, evs) \<Rightarrow> (res, Request req # Sleep delay # evs))
      | Inl e \<Rightarrow>
          if e = RequestException then
            (case notify_attempts net req (Suc i) k (delay * 2) of
               (res, evs) \<Rightarrow> (res, Request req # Sleep delay # evs))
          else (Inl e, [Request req]))"

text \<open>
  \<^verbatim>\<open>notify_evaluation(payload)\<close>. The dictionary is the caller's object, changed in
  place: the result gives it back as it is after the call.
\<close>

definition notify_evaluation :: "network \<Rightarrow> pydict \<Rightarrow> (exn + unit) \<times> pydict \<times> event list" where
  "notify_evaluation net payload =
     (let url = dict_get payload ''evaluation_url'' in
      if \<not> truthy url then (Inr (), payload, [])
      else
        (case dict_del payload ''evaluation_url'' of
           Inl e \<Rightarrow> (Inl e, payload, [])
         | Inr payload1 \<Rightarrow>
             (case notify_attempts net (POST url (PDict payload1)) 0 4 1 of
                (res, evs) \<Rightarrow> (res, payload1, evs))))"

section \<open>Pipeline Orchestrator: \<^verbatim>\<open>process_request\<close>\<close>

text \<open>The fields read from the request body (lines 13 to 19).\<close>

record task_request =
  task :: string
  brief :: string
  attachments :: "attachment list"
  evaluation_url :: pyval
  nonce :: pyval
  round_num :: int
  email :: pyval

text \<open>What the outside answers during one run.\<close>

record env =
  b64decode :: "string \<Rightarrow> exn + bytes"
  files_env :: file_system
  llm :: "string \<Rightarrow> exn + content"
  pages_net :: network
  callback_net :: network

text \<open>What a run changes, and what it asked of the outside.\<close>

record world =
  workdir :: workdir
  acct :: account
  events :: "event list"
  calls :: "api_call list"

definition repo_html_url :: "repo \<Rightarrow> string" where
  "repo_html_url r = ''https://github.com/'' @ full_name r"

text \<open>The repository object is a handle: what is written through it is on the host.\<close>

definition store_repo :: "string \<Rightarrow> repo \<Rightarrow> account \<Rightarrow> account" where
  "store_repo repo_name r a = a\<lparr>repos := AList.update repo_name r (repos a)\<rparr>"

definition build_payload :: "task_request \<Rightarrow> repo \<Rightarrow> commit \<Rightarrow> pyval \<Rightarrow> pydict" where
  "build_payload d r c pages_url =
     [(''email'', email d),
      (''task'', PStr (task d)),
      (''round'', PInt (round_num d)),
      (''nonce'', nonce d),
      (''repo_url'', PStr (repo_html_url r)),
      (''commit_sha'', PInt (int (sha c))),
      (''pages_url'', pages_url),
      (''evaluation_url'', evaluation_url d)]"

text \<open>
  \<^verbatim>\<open>process_request(data)\<close>, lines 9 to 46. There is no handler: the first
  exception of a step ends the run, with the world as that step left it.
\<close>

definition process_request :: "env \<Rightarrow> task_request \<Rightarrow> world \<Rightarrow> (exn + unit) \<times> world" where
  "process_request en d w =
     (case generate_app (b64decode en) (files_env en) (llm en) (brief d) (attachments d) (task d) (round_num d)
             (workdir w) of
        (Inl e, wd1, evs1) \<Rightarrow> (Inl e, w\<lparr>workdir := wd1, events := events w @ evs1\<rparr>)
      | (Inr _, wd1, evs1) \<Rightarrow>
          (case ensure_repository (task d) (round_num d) (acct w) of
             (Inl e, a1, cs) \<Rightarrow>
               (Inl e, w\<lparr>workdir := wd1, acct := a1, events := events w @ evs1,
                         calls := calls w @ cs\<rparr>)
           | (Inr r, a1, cs) \<Rightarrow>
               (case upload_files_to_repo (task d) r (round_num d) wd1 of
                  (Inl e, r1) \<Rightarrow>
                    (Inl e, w\<lparr>workdir := wd1, acct := store_repo (task_repo_name (task d)) r1 a1,
                              events := events w @ evs1, calls := calls w @ cs\<rparr>)
                | (Inr c, r1) \<Rightarrow>
                    (case enable_pages (pages_net en) r1 of
                       (Inl e, evs2) \<Rightarrow>
                         (Inl e, w\<lparr>workdir := wd1,
                                   acct := store_repo (task_repo_name (task d)) r1 a1,
                                   events := events w @ evs1 @ evs2, calls := calls w @ cs\<rparr>)
                     | (Inr pages_url, evs2) \<Rightarrow>
                         (case notify_evaluation (callback_net en) (build_payload d r1 c pages_url) of
                            (res, _, evs3) \<Rightarrow>
                              (res, w\<lparr>workdir := wd1,
                                      acct := store_repo (task_repo_name (task d)) r1 a1,
                                      events := events w @ evs1 @ evs2 @ evs3,
                                      calls := calls w @ cs\<rparr>))))))"

section \<open>Notions used in the statements\<close>

text \<open>
  The two ways an attempt of the notifier goes on (lines 208 to 217). The loop accepts
  the attempt and returns when the response has status 200, the test of line 210. It
  sleeps and retries when \<^verbatim>\<open>requests.post\<close> raised the transport exception that
  line 213 catches, or when the response has any other status.
\<close>

definition attempt_retried :: "exn + response \<Rightarrow> bool" where
  "attempt_retried x =
     (case x of Inl e \<Rightarrow> e = RequestException | Inr resp \<Rightarrow> status_code resp \<noteq> 200)"

definition attempt_accepted :: "exn + response \<Rightarrow> bool" where
  "attempt_accepted x = (case x of Inl e \<Rightarrow> False | Inr resp \<Rightarrow> status_code resp = 200)"

text \<open>The success statuses of HTTP: 200 to 299.\<close>

definition success_status :: "nat \<Rightarrow> bool" where
  "success_status code = (200 \<le> code \<and> code < 300)"

text \<open>\<open>m\<close> retried attempts in a row: a request, then a sleep of the current delay.\<close>

fun retry_trace :: "request \<Rightarrow> nat \<Rightarrow> nat \<Rightarrow> event list" where
  "retry_trace req delay 0 = []"
| "retry_trace req delay (Suc m) = Request req # Sleep delay # retry_trace req (delay * 2) m"

text \<open>The HTTP requests among the events.\<close>

fun requests_of :: "event list \<Rightarrow> request list" where
  "requests_of [] = []"
| "requests_of (Request r # evs) = r # requests_of evs"
| "requests_of (_ # evs) = requests_of evs"

text \<open>
  An attachment that cannot touch the file \<open>f\<close> of the Working Directory: it is skipped,
  or it has a plain name other than \<open>f\<close>.
\<close>

definition leaves_file :: "string \<Rightarrow> attachment \<Rightarrow> bool" where
  "leaves_file f a =
     (case (name a, url a) of
        (Some n, Some u) \<Rightarrow> n = [] \<or> u = [] \<or> (plain_name n \<and> n \<noteq> f)
      | _ \<Rightarrow> True)"

text \<open>The request the notifier sends for a payload: to its callback URL, without it.\<close>

definition callback_request :: "pydict \<Rightarrow> request" where
  "callback_request payload =
     POST (dict_get payload ''evaluation_url'') (PDict (AList.delete ''evaluation_url'' payload))"

section \<open>Sample inputs\<close>

text \<open>Networks: down, answering 200, and the answers of the hosting interface.\<close>

definition net_down :: network where
  "net_down i req = Inl RequestException"

definition net_ok :: network where
  "net_ok i req = Inr \<lparr>status_code = 200, body = JSON (PDict [])\<rparr>"

definition net_pages_created :: network where
  "net_pages_created i req =
     Inr \<lparr>status_code = 201,
          body = JSON (PDict [(''html_url'', PStr ''https://u.github.io/task-t1/'')])\<rparr>"

definition net_no_content :: network where
  "net_no_content i req = Inr \<lparr>status_code = 204, body = NotJSON []\<rparr>"

definition net_refused :: network where
  "net_refused i req =
     (if i = 0 then Inr \<lparr>status_code = 403, body = NotJSON []\<rparr>
      else Inr \<lparr>status_code = 404, body = NotJSON []\<rparr>)"

definition net_conflict_then_down :: network where
  "net_conflict_then_down i req =
     (if i = 0 then Inr \<lparr>status_code = 409, body = NotJSON []\<rparr> else Inl RequestException)"

text \<open>Payloads with and without a callback URL.\<close>

definition sample_payload :: pydict where
  "sample_payload =
     [(''email'', PStr ''a@b.c''), (''task'', PStr ''t1''), (''round'', PInt 1),
      (''nonce'', PStr ''n''), (''repo_url'', PStr ''https://github.com/u/task-t1''),
      (''commit_sha'', PInt 2), (''pages_url'', PNone),
      (''evaluation_url'', PStr ''https://eval.example/cb'')]"

definition payload_without_url :: pydict where
  "payload_without_url =
     [(''email'', PStr ''a@b.c''), (''task'', PStr ''t1''), (''round'', PInt 1),
      (''nonce'', PStr ''n''), (''repo_url'', PStr ''https://github.com/u/task-t1''),
      (''commit_sha'', PInt 2), (''pages_url'', PNone),
      (''evaluation_url'', PNone)]"

text \<open>
  A file system that refuses every name that is not plain and every text that is not
  ASCII without carriage returns.
\<close>

definition fs_strict :: file_system where
  "fs_strict =
     \<lparr>open_other = (\<lambda>wd n. Inl FileNotFoundError),
      encode_other = (\<lambda>s. Inl UnicodeEncodeError),
      decode_other = (\<lambda>bs. Inl UnicodeDecodeError)\<rparr>"

text \<open>A decoder that knows two payloads, and three generation services.\<close>

definition b64_sample :: "string \<Rightarrow> exn + string" where
  "b64_sample s =
     (if s = ''aGk='' then Inr ''hi''
      else if s = ''PHA+bmV3PC9wPg=='' then Inr ''<p>new</p>''
      else Inl BinasciiError)"

definition llm_page :: "string \<Rightarrow> exn + content" where
  "llm_page prompt = Inr (JSON (PDict [(''html'', PStr ''<html>ok</html>'')]))"

definition llm_empty_object :: "string \<Rightarrow> exn + content" where
  "llm_empty_object prompt = Inr (JSON (PDict []))"

definition llm_not_json :: "string \<Rightarrow> exn + content" where
  "llm_not_json prompt = Inr (NotJSON ''Sorry, I cannot do that.'')"

text \<open>Attachments and Working Directories.\<close>

definition att_note :: attachment where
  "att_note = \<lparr>name = Some ''note.txt'', url = Some ''data:text/plain;base64,aGk=''\<rparr>"


definition att_no_comma :: attachment where
  "att_no_comma = \<lparr>name = Some ''note.txt'', url = Some ''aGk=''\<rparr>"



definition att_index :: attachment where
  "att_index =
     \<lparr>name = Some ''index.html'', url = Some ''data:text/html;base64,PHA+bmV3PC9wPg==''\<rparr>"

definition wd_round1 :: workdir where
  "wd_round1 = [(''index.html'', ''<p>old</p>'')]"

definition wd_page :: workdir where
  "wd_page = [(''index.html'', ''<html>ok</html>'')]"

text \<open>A repository, accounts, and a whole run.\<close>

definition fresh_repo :: repo where
  "fresh_repo = \<lparr>full_name = ''u/task-t1'', files = [], commits = []\<rparr>"

definition fresh_account :: account where
  "fresh_account = \<lparr>login = ''u'', repos = [], create_fault = None\<rparr>"

definition account_with_repo :: account where
  "account_with_repo = \<lparr>login = ''u'', repos = [(''task-t1'', fresh_repo)], create_fault = None\<rparr>"

definition sample_env :: env where
  "sample_env = \<lparr>b64decode = b64_sample, files_env = fs_strict, llm = llm_page,
                  pages_net = net_pages_created, callback_net = net_ok\<rparr>"

definition sample_request :: task_request where
  "sample_request =
     \<lparr>task = ''t1'', brief = ''b'', attachments = [att_note],
      evaluation_url = PStr ''https://eval.example/cb'', nonce = PStr ''n'',
      round_num = 1, email = PStr ''a@b.c''\<rparr>"

definition fresh_world :: world where
  "fresh_world = \<lparr>workdir = [], acct = fresh_account, events = [], calls = []\<rparr>"

section \<open>The Notifier\<close>

lemma notify_attempts_all_failed:
  "(\<And>j. j < k \<Longrightarrow> attempt_retried (net (i + j) req)) \<Longrightarrow>
   notify_attempts net req i k delay = (Inr (), retry_trace req delay k)"
proof (induction k arbitrary: i delay)
  case 0
  then show ?case by simp
next
  case (Suc k)
  have first: "attempt_retried (net i req)" using Suc.prems [of 0] by simp
  have "\<And>j. j < k \<Longrightarrow> attempt_retried (net (Suc i + j) req)"
    using Suc.prems [of "Suc _"] by simp
  then have rest:
    "notify_attempts net req (Suc i) k (delay * 2) = (Inr (), retry_trace req (delay * 2) k)"
    by (rule Suc.IH)
  show ?case using first rest
    by (auto simp: attempt_retried_def split: sum.splits)
qed

lemma notify_attempts_success_at:
  "m < k \<Longrightarrow> (\<And>j. j < m \<Longrightarrow> attempt_retried (net (i + j) req)) \<Longrightarrow>
   attempt_accepted (net (i + m) req) \<Longrightarrow>
   notify_attempts net req i k delay = (Inr (), retry_trace req delay m @ [Request req])"
proof (induction m arbitrary: i k delay)
  case 0
  then obtain k' where k: "k = Suc k'" by (cases k) auto
  from 0 show ?case unfolding k
    by (auto simp: attempt_accepted_def split: sum.splits)
next
  case (Suc m)
  then obtain k' where k: "k = Suc k'" and mk: "m < k'" by (cases k) auto
  have first: "attempt_retried (net i req)" using Suc.prems(2) [of 0] by simp
  have f: "\<And>j. j < m \<Longrightarrow> attempt_retried (net (Suc i + j) req)"
    using Suc.prems(2) [of "Suc _"] by simp
  have ok: "attempt_accepted (net (Suc i + m) req)" using Suc.prems(3) by simp
  have rest: "notify_attempts net req (Suc i) k' (delay * 2) =
      (Inr (), retry_trace req (delay * 2) m @ [Request req])"
    using Suc.IH [OF mk f ok] .
  show ?case unfolding k using first rest
    by (auto simp: attempt_retried_def split: sum.splits)
qed

lemma notify_attempts_posts_le:
  "length (filter is_post (snd (notify_attempts net req i k delay))) \<le> k"
proof (induction k arbitrary: i delay)
  case 0
  then show ?case by simp
next
  case (Suc k)
  have "length (filter is_post (snd (notify_attempts net req (Suc i) k (delay * 2)))) \<le> k"
    by (rule Suc.IH)
  then show ?case by (auto split: sum.splits prod.splits)
qed

lemma notify_attempts_requests:
  "\<exists>n. n \<le> k \<and> (0 < k \<longrightarrow> 0 < n) \<and>
     requests_of (snd (notify_attempts net req i k delay)) = replicate n req"
proof (induction k arbitrary: i delay)
  case 0
  then show ?case by simp
next
  case (Suc k)
  obtain n where n: "n \<le> k"
    "requests_of (snd (notify_attempts net req (Suc i) k (delay * 2))) = replicate n req"
    using Suc.IH by blast
  show ?case
  proof (cases "net i req")
    case (Inl e)
    show ?thesis
    proof (cases "e = RequestException")
      case True
      with Inl n show ?thesis
        by (intro exI [of _ "Suc n"]) (auto split: prod.splits)
    next
      case False
      with Inl show ?thesis by (intro exI [of _ 1]) auto
    qed
  next
    case (Inr resp)
    show ?thesis
    proof (cases "status_code resp = 200")
      case True
      with Inr show ?thesis by (intro exI [of _ 1]) auto
    next
      case False
      with Inr n show ?thesis
        by (intro exI [of _ "Suc n"]) (auto split: prod.splits)
    qed
  qed
qed

lemma dict_del_present:
  "truthy (dict_get payload k) \<Longrightarrow> dict_del payload k = Inr (AList.delete k payload)"
  by (auto simp: dict_get_def dict_del_def split: option.splits)

lemma notify_evaluation_unfold:
  "truthy (dict_get payload ''evaluation_url'') \<Longrightarrow>
   notify_evaluation net payload =
     (fst (notify_attempts net (callback_request payload) 0 4 1),
      AList.delete ''evaluation_url'' payload,
      snd (notify_attempts net (callback_request payload) 0 4 1))"
  by (simp add: notify_evaluation_def dict_del_present callback_request_def Let_def
      split: prod.splits)

lemma sample_url: "dict_get sample_payload ''evaluation_url'' = PStr ''https://eval.example/cb''"
  by (simp add: sample_payload_def dict_get_def)

lemma sample_payload_delete:
  "AList.delete ''evaluation_url'' sample_payload =
     [(''email'', PStr ''a@b.c''), (''task'', PStr ''t1''), (''round'', PInt 1),
      (''nonce'', PStr ''n''), (''repo_url'', PStr ''https://github.com/u/task-t1''),
      (''commit_sha'', PInt 2), (''pages_url'', PNone)]"
  by (simp add: sample_payload_def)

text \<open>
  Claim C4, as amended. For a payload that carries a callback URL,
  \<^verbatim>\<open>notify_evaluation\<close> sends at most 4 POSTs. A response with status 200 ends the
  retrying at once: when attempt \<open>m\<close> is the first to be answered with 200, the run is
  \<open>m\<close> retried attempts followed by that one request, so a 200 at the first attempt means
  exactly one POST. Every other outcome is retried: the transport exception and every
  other status, the other success statuses included. When all 4 attempts are retried,
  the function sleeps 1, 2 and 4 between consecutive attempts (and 8 after the last one)
  and returns without raising.
\<close>

theorem notify_retry_policy:
  assumes url: "truthy (dict_get payload ''evaluation_url'')"
  shows "length (filter is_post (snd (snd (notify_evaluation net payload)))) \<le> 4
    \<and> (\<forall>m<4. (\<forall>j<m. attempt_retried (net j (callback_request payload))) \<and>
                attempt_accepted (net m (callback_request payload)) \<longrightarrow>
           fst (notify_evaluation net payload) = Inr () \<and>
           snd (snd (notify_evaluation net payload)) =
             retry_trace (callback_request payload) 1 m @ [Request (callback_request payload)])
    \<and> (attempt_accepted (net 0 (callback_request payload)) \<longrightarrow>
           snd (snd (notify_evaluation net payload)) = [Request (callback_request payload)])
    \<and> ((\<forall>j<4. attempt_retried (net j (callback_request payload))) \<longrightarrow>
           fst (notify_evaluation net payload) = Inr () \<and>
           snd (snd (notify_evaluation net payload)) =
             [Request (callback_request payload), Sleep 1,
              Request (callback_request payload), Sleep 2,
              Request (callback_request payload), Sleep 4,
              Request (callback_request payload), Sleep 8])"
proof -
  let ?req = "callback_request payload"
  note unf = notify_evaluation_unfold [OF url, of net]
  have bound: "length (filter is_post (snd (snd (notify_evaluation net payload)))) \<le> 4"
    unfolding unf using notify_attempts_posts_le [of net ?req 0 4 1] by simp
  have succ: "fst (notify_evaluation net payload) = Inr () \<and>
           snd (snd (notify_evaluation net payload)) = retry_trace ?req 1 m @ [Request ?req]"
    if "m < 4" "\<forall>j<m. attempt_retried (net j ?req)" "attempt_accepted (net m ?req)" for m
  proof -
    have "notify_attempts net ?req 0 4 1 = (Inr (), retry_trace ?req 1 m @ [Request ?req])"
      using that by (intro notify_attempts_success_at) auto
    then show ?thesis unfolding unf by simp
  qed
  have first: "attempt_accepted (net 0 ?req) \<longrightarrow>
           snd (snd (notify_evaluation net payload)) = [Request ?req]"
    using succ [of 0] by simp
  have exhausted: "fst (notify_evaluation net payload) = Inr () \<and>
           snd (snd (notify_evaluation net payload)) =
             [Request ?req, Sleep 1, Request ?req, Sleep 2,
              Request ?req, Sleep 4, Request ?req, Sleep 8]"
    if "\<forall>j<4. attempt_retried (net j ?req)"
  proof -
    have "notify_attempts net ?req 0 4 1 = (Inr (), retry_trace ?req 1 4)"
      using that by (intro notify_attempts_all_failed) auto
    then show ?thesis unfolding unf by (simp add: numeral_eq_Suc)
  qed
  from bound succ first exhausted show ?thesis by blast
qed

theorem notify_retry_policy_witness:
  "truthy (dict_get sample_payload ''evaluation_url'')
   \<and> attempt_retried (net_down 0 (callback_request sample_payload))
   \<and> attempt_retried (net_down 1 (callback_request sample_payload))
   \<and> attempt_retried (net_down 2 (callback_request sample_payload))
   \<and> attempt_retried (net_down 3 (callback_request sample_payload))
   \<and> fst (notify_evaluation net_down sample_payload) = Inr ()
   \<and> snd (snd (notify_evaluation net_down sample_payload)) =
       [Request (callback_request sample_payload), Sleep 1,
        Request (callback_request sample_payload), Sleep 2,
        Request (callback_request sample_payload), Sleep 4,
        Request (callback_request sample_payload), Sleep 8]
   \<and> length (filter is_post (snd (snd (notify_evaluation net_down sample_payload)))) \<le> 4
   \<and> attempt_accepted (net_ok 0 (callback_request sample_payload))
   \<and> snd (snd (notify_evaluation net_ok sample_payload)) =
       [Request (callback_request sample_payload)]"
proof -
  have t: "truthy (dict_get sample_payload ''evaluation_url'')" by (simp add: sample_url)
  have d: "attempt_retried (net_down j (callback_request sample_payload))" for j
    by (simp add: net_down_def attempt_retried_def)
  have k: "attempt_accepted (net_ok 0 (callback_request sample_payload))"
    by (simp add: net_ok_def attempt_accepted_def)
  show ?thesis
    using t d k notify_retry_policy [OF t, of net_down] notify_retry_policy [OF t, of net_ok]
    by simp
qed

text \<open>
  Claim C4 as stated fails: 204 is a success status, and a callback that answers every
  attempt with it does not end the retrying. The notifier sends all 4 POSTs, with sleeps
  of 1, 2, 4 and 8, where the claim has exactly one.
\<close>

theorem notify_retry_policy_counterexample:
  "net_no_content 0 (callback_request sample_payload) =
     Inr \<lparr>status_code = 204, body = NotJSON []\<rparr>
   \<and> success_status 204
   \<and> snd (snd (notify_evaluation net_no_content sample_payload)) =
       [Request (callback_request sample_payload), Sleep 1,
        Request (callback_request sample_payload), Sleep 2,
        Request (callback_request sample_payload), Sleep 4,
        Request (callback_request sample_payload), Sleep 8]
   \<and> length (filter is_post (snd (snd (notify_evaluation net_no_content sample_payload)))) = 4"
proof -
  have t: "truthy (dict_get sample_payload ''evaluation_url'')" by (simp add: sample_url)
  have "notify_attempts net_no_content (callback_request sample_payload) 0 4 1 =
      (Inr (), retry_trace (callback_request sample_payload) 1 4)"
    by (intro notify_attempts_all_failed) (simp add: net_no_content_def attempt_retried_def)
  then have e: "snd (snd (notify_evaluation net_no_content sample_payload)) =
       [Request (callback_request sample_payload), Sleep 1,
        Request (callback_request sample_payload), Sleep 2,
        Request (callback_request sample_payload), Sleep 4,
        Request (callback_request sample_payload), Sleep 8]"
    unfolding notify_evaluation_unfold [OF t] by (simp add: numeral_eq_Suc)
  have p: "is_post (Request (callback_request sample_payload))"
    by (simp add: callback_request_def)
  show ?thesis
    unfolding e using p by (simp add: net_no_content_def success_status_def)
qed

text \<open>
  Claim C6. When the payload carries no callback URL (the entry is absent, \<^verbatim>\<open>None\<close>
  or empty), \<^verbatim>\<open>notify_evaluation\<close> returns at once: no request, the payload as it
  was. Otherwise every request it makes, and it makes between one and four, is the POST
  to the callback URL whose body is the payload without the callback-URL entry.
\<close>

theorem notify_callback_gate:
  "(\<not> truthy (dict_get payload ''evaluation_url'') \<longrightarrow>
      notify_evaluation net payload = (Inr (), payload, []))
   \<and> (truthy (dict_get payload ''evaluation_url'') \<longrightarrow>
      (\<exists>n. 1 \<le> n \<and> n \<le> 4 \<and>
         requests_of (snd (snd (notify_evaluation net payload))) =
           replicate n (POST (dict_get payload ''evaluation_url'')
                             (PDict (AList.delete ''evaluation_url'' payload)))))"
proof (intro conjI impI)
  assume "\<not> truthy (dict_get payload ''evaluation_url'')"
  then show "notify_evaluation net payload = (Inr (), payload, [])"
    by (simp add: notify_evaluation_def)
next
  assume url: "truthy (dict_get payload ''evaluation_url'')"
  obtain n where "n \<le> 4" "0 < n"
    "requests_of (snd (notify_attempts net (callback_request payload) 0 4 1)) =
       replicate n (callback_request payload)"
    using notify_attempts_requests [of 4 net "callback_request payload" 0 1] by auto
  then show "\<exists>n. 1 \<le> n \<and> n \<le> 4 \<and>
         requests_of (snd (snd (notify_evaluation net payload))) =
           replicate n (POST (dict_get payload ''evaluation_url'')
                             (PDict (AList.delete ''evaluation_url'' payload)))"
    unfolding notify_evaluation_unfold [OF url] callback_request_def
    by (intro exI [of _ n]) simp
qed

theorem notify_callback_gate_witness:
  "\<not> truthy (dict_get payload_without_url ''evaluation_url'')
   \<and> notify_evaluation net_down payload_without_url = (Inr (), payload_without_url, [])
   \<and> truthy (dict_get sample_payload ''evaluation_url'')
   \<and> (\<exists>n. 1 \<le> n \<and> n \<le> 4 \<and>
         requests_of (snd (snd (notify_evaluation net_ok sample_payload))) =
           replicate n (POST (PStr ''https://eval.example/cb'')
             (PDict [(''email'', PStr ''a@b.c''), (''task'', PStr ''t1''), (''round'', PInt 1),
                     (''nonce'', PStr ''n''), (''repo_url'', PStr ''https://github.com/u/task-t1''),
                     (''commit_sha'', PInt 2), (''pages_url'', PNone)])))"
proof -
  have a: "\<not> truthy (dict_get payload_without_url ''evaluation_url'')"
    by (simp add: payload_without_url_def dict_get_def)
  have b: "truthy (dict_get sample_payload ''evaluation_url'')" by (simp add: sample_url)
  show ?thesis
    using a b notify_callback_gate [of payload_without_url net_down]
      notify_callback_gate [of sample_payload net_ok]
    by (simp add: sample_url sample_payload_delete)
qed

text \<open>
  Claim C9. \<^verbatim>\<open>notify_evaluation\<close> changes its argument: for a payload that carries a
  callback URL, the caller's dictionary is afterwards the same dictionary with the
  callback-URL entry deleted. The key is gone and every other key has the value it had.
\<close>

theorem notify_mutates_payload:
  assumes "truthy (dict_get payload ''evaluation_url'')"
  shows "fst (snd (notify_evaluation net payload)) = AList.delete ''evaluation_url'' payload
    \<and> map_of (fst (snd (notify_evaluation net payload))) ''evaluation_url'' = None
    \<and> (\<forall>k. k \<noteq> ''evaluation_url'' \<longrightarrow>
          map_of (fst (snd (notify_evaluation net payload))) k = map_of payload k)"
  unfolding notify_evaluation_unfold [OF assms]
  by (simp add: delete_conv)

theorem notify_mutates_payload_witness:
  "truthy (dict_get sample_payload ''evaluation_url'')
   \<and> fst (snd (notify_evaluation net_down sample_payload)) =
       [(''email'', PStr ''a@b.c''), (''task'', PStr ''t1''), (''round'', PInt 1),
        (''nonce'', PStr ''n''), (''repo_url'', PStr ''https://github.com/u/task-t1''),
        (''commit_sha'', PInt 2), (''pages_url'', PNone)]
   \<and> map_of (fst (snd (notify_evaluation net_down sample_payload))) ''evaluation_url'' = None
   \<and> map_of (fst (snd (notify_evaluation net_down sample_payload))) ''nonce'' = Some (PStr ''n'')"
proof -
  have t: "truthy (dict_get sample_payload ''evaluation_url'')" by (simp add: sample_url)
  have m: "map_of sample_payload ''nonce'' = Some (PStr ''n'')"
    by (simp add: sample_payload_def)
  show ?thesis
    using t notify_mutates_payload [OF t, of net_down] m sample_payload_delete by simp
qed

section \<open>The Content Generator\<close>

lemma split1_no_sep: "sep \<notin> set s \<Longrightarrow> split1 sep s = [s]"
proof -
  assume "sep \<notin> set s"
  then have d: "dropWhile (\<lambda>c. c \<noteq> sep) s = []" by (induction s) auto
  show ?thesis unfolding split1_def d by simp
qed

lemma split1_sep: "sep \<notin> set h \<Longrightarrow> split1 sep (h @ sep # rest) = [h, rest]"
proof -
  assume h: "sep \<notin> set h"
  then have d: "dropWhile (\<lambda>c. c \<noteq> sep) (h @ sep # rest) = sep # rest"
    by (induction h) auto
  from h have t: "takeWhile (\<lambda>c. c \<noteq> sep) (h @ sep # rest) = h"
    by (induction h) auto
  show ?thesis unfolding split1_def d t by simp
qed


lemma write_binary_plain:
  "plain_name n \<Longrightarrow> write_binary fs wd n data = (Inr (), put_file wd n data)"
  by (simp add: write_binary_def open_for_write_def)

lemma map_of_put_file: "map_of (put_file wd n data) n = Some data"
  by (simp add: put_file_def update_conv')

lemma map_of_put_file_other: "m \<noteq> n \<Longrightarrow> map_of (put_file wd n data) m = map_of wd m"
  by (simp add: put_file_def update_conv')


lemma store_attachments_skip:
  "\<not> (present (name a) \<and> present (url a)) \<Longrightarrow>
   store_attachments dec fs (a # rest) wd = store_attachments dec fs rest wd"
  by (auto simp: present_def split: option.splits)


lemma store_attachments_no_comma:
  "name a = Some n \<Longrightarrow> n \<noteq> [] \<Longrightarrow> url a = Some u \<Longrightarrow> u \<noteq> [] \<Longrightarrow> CHR '','' \<notin> set u \<Longrightarrow>
   store_attachments dec fs (a # rest) wd = (Inl ValueError, wd)"
  by (cases u) (simp_all add: split1_no_sep)

text \<open>
  An attachment with a name that is not plain: the file system decides. What the opening
  raises leaves the function; otherwise the content goes where the name leads.
\<close>

lemma store_attachments_other_name:
  "name a = Some n \<Longrightarrow> n \<noteq> [] \<Longrightarrow> \<not> plain_name n \<Longrightarrow> url a = Some (h @ CHR '','' # enc) \<Longrightarrow>
   CHR '','' \<notin> set h \<Longrightarrow> dec enc = Inr data \<Longrightarrow>
   store_attachments dec fs (a # rest) wd =
     (case open_other fs wd n of
        Inl e \<Rightarrow> (Inl e, wd)
      | Inr None \<Rightarrow> store_attachments dec fs rest wd
      | Inr (Some m) \<Rightarrow> store_attachments dec fs rest (put_file wd m data))"
  by (simp add: split1_sep write_binary_def open_for_write_def split: sum.splits option.splits)


lemma store_attachments_keeps:
  "store_attachments dec fs xs wd = (res, wd1) \<Longrightarrow> list_all (leaves_file f) xs \<Longrightarrow>
   map_of wd1 f = map_of wd f"
proof (induction xs arbitrary: wd)
  case Nil
  then show ?case by simp
next
  case (Cons a xs)
  have rest: "list_all (leaves_file f) xs" using Cons.prems(2) by simp
  show ?case
  proof (cases "present (name a) \<and> present (url a)")
    case False
    then have "store_attachments dec fs xs wd = (res, wd1)"
      using Cons.prems(1) by (simp add: store_attachments_skip del: store_attachments.simps)
    then show ?thesis using Cons.IH rest by simp
  next
    case True
    then obtain n u where nu: "name a = Some n" "n \<noteq> []" "url a = Some u" "u \<noteq> []"
      by (auto simp: present_def split: option.splits)
    have pn: "plain_name n" and nf: "f \<noteq> n"
      using Cons.prems(2) nu by (auto simp: leaves_file_def)
    show ?thesis
    proof (cases "\<exists>h enc data. split1 CHR '','' u = [h, enc] \<and> dec enc = Inr data")
      case True
      then obtain h enc data where s: "split1 CHR '','' u = [h, enc]" "dec enc = Inr data"
        by blast
      then have "store_attachments dec fs xs (put_file wd n data) = (res, wd1)"
        using Cons.prems(1) nu pn by (simp add: write_binary_plain)
      then have "map_of wd1 f = map_of (put_file wd n data) f"
        using Cons.IH rest by simp
      then show ?thesis using nf by (simp add: map_of_put_file_other)
    next
      case False
      then have "wd1 = wd"
        using Cons.prems(1) nu
        by (auto split: list.splits sum.splits)
      then show ?thesis by simp
    qed
  qed
qed

lemma safe_fallback_html: "safe_text fallback_html"
  by (simp add: safe_text_def fallback_html_def)

text \<open>
  What \<^verbatim>\<open>generate_app\<close> makes of the two kinds of malformed content: a text that is
  not JSON gives the fallback document, an object without the \<^verbatim>\<open>html\<close> key gives
  the empty document.
\<close>

lemma generate_app_not_json:
  assumes "store_attachments dec fs xs wd = (Inr (), wd1)"
    and "build_prompt fs b rn wd1 = Inr prompt"
    and "gen prompt = Inr (NotJSON s)"
  shows "generate_app dec fs gen b xs t rn wd =
           (Inr (), put_file wd1 ''index.html'' fallback_html, [Completion prompt])"
  using assms safe_fallback_html
  by (simp add: generate_app_def parse_html_def json_loads_def write_html_def encode_text_def)

lemma generate_app_missing_field:
  assumes "store_attachments dec fs xs wd = (Inr (), wd1)"
    and "build_prompt fs b rn wd1 = Inr prompt"
    and "gen prompt = Inr (JSON (PDict kvs))"
    and "map_of kvs ''html'' = None"
  shows "generate_app dec fs gen b xs t rn wd =
           (Inr (), put_file wd1 ''index.html'' [], [Completion prompt])"
  using assms
  by (simp add: generate_app_def parse_html_def json_loads_def write_html_def dict_get_default_def
      encode_text_def safe_text_def)

text \<open>
  Claim C1. The claim asks for the fallback error document whenever the content of the
  generation response is not valid JSON or lacks the \<^verbatim>\<open>html\<close> field. For the JSON
  object without the field, \<^verbatim>\<open>{}\<close>, the code writes the empty document instead:
  \<^verbatim>\<open>output.get("html", "")\<close> gives the empty string and never raises the
  \<open>KeyError\<close> that the handler of line 100 is written to catch. The run below is round 1
  with no attachment and an empty Working Directory, on any file system.
\<close>

theorem missing_html_field_writes_empty_document:
  "generate_app b64_sample fs llm_empty_object ''b'' [] ''t1'' 1 [] =
     (Inr (), [(''index.html'', [])], [Completion (base_prompt ''b'')])
   \<and> map_of [(''index.html'', [])] ''index.html'' \<noteq> Some fallback_html"
  by (simp add: generate_app_def build_prompt_def llm_empty_object_def parse_html_def
      json_loads_def dict_get_default_def write_html_def put_file_def encode_text_def
      safe_text_def fallback_html_def)




lemma written_document_read_back:
  "safe_text html \<Longrightarrow> read_index_html fs (snd (write_html fs wd (PStr html))) = Inr html"
  by (simp add: write_html_def encode_text_def read_index_html_def decode_text_def map_of_put_file)

text \<open>
  Claim C8, as amended. Let the attachments of the round be stored without an exception.
  In a round above 1 the instruction sent to the generation service is the instruction
  built from the brief, extended with the text read from \<^verbatim>\<open>index.html\<close> in the
  Working Directory as the attachments of this round have left it. That file is the one
  the round started with when every attachment of the round is skipped or has a plain
  name other than \<^verbatim>\<open>index.html\<close>; and a document of ASCII text without carriage
  returns that a round has written is read back as it was. When the file does not exist
  or cannot be decoded the read raises and no instruction is sent. In round 1 (any round
  not above 1) the instruction is built from the brief alone.
\<close>

theorem revision_context:
  assumes "store_attachments dec fs xs wd = (Inr (), wd1)"
  shows "(rn > 1 \<and> read_index_html fs wd1 = Inr html \<longrightarrow>
            snd (snd (generate_app dec fs gen b xs t rn wd)) =
              [Completion (base_prompt b @ revision_suffix html)])
    \<and> (list_all (leaves_file ''index.html'') xs \<longrightarrow>
            map_of wd1 ''index.html'' = map_of wd ''index.html'' \<and>
            read_index_html fs wd1 = read_index_html fs wd)
    \<and> (safe_text doc \<longrightarrow>
            read_index_html fs (snd (write_html fs wd0 (PStr doc))) = Inr doc)
    \<and> (rn > 1 \<and> read_index_html fs wd1 = Inl e \<longrightarrow>
            generate_app dec fs gen b xs t rn wd = (Inl e, wd1, []))
    \<and> (rn \<le> 1 \<longrightarrow>
            snd (snd (generate_app dec fs gen b xs t rn wd)) = [Completion (base_prompt b)])"
proof (intro conjI impI)
  assume "rn > 1 \<and> read_index_html fs wd1 = Inr html"
  then show "snd (snd (generate_app dec fs gen b xs t rn wd)) =
              [Completion (base_prompt b @ revision_suffix html)]"
    by (simp add: generate_app_def assms build_prompt_def split: sum.splits prod.splits)
next
  assume l: "list_all (leaves_file ''index.html'') xs"
  show m: "map_of wd1 ''index.html'' = map_of wd ''index.html''"
    using store_attachments_keeps [OF assms l] .
  show "read_index_html fs wd1 = read_index_html fs wd"
    by (simp add: read_index_html_def m)
next
  assume "safe_text doc"
  then show "read_index_html fs (snd (write_html fs wd0 (PStr doc))) = Inr doc"
    by (rule written_document_read_back)
next
  assume "rn > 1 \<and> read_index_html fs wd1 = Inl e"
  then show "generate_app dec fs gen b xs t rn wd = (Inl e, wd1, [])"
    by (simp add: generate_app_def assms build_prompt_def)
next
  assume "rn \<le> 1"
  then show "snd (snd (generate_app dec fs gen b xs t rn wd)) = [Completion (base_prompt b)]"
    by (simp add: generate_app_def assms build_prompt_def split: sum.splits prod.splits)
qed

theorem revision_context_witness:
  "store_attachments b64_sample fs_strict [att_note] wd_round1 =
      (Inr (), [(''index.html'', ''<p>old</p>''), (''note.txt'', ''hi'')])
   \<and> (2::int) > 1
   \<and> read_index_html fs_strict [(''index.html'', ''<p>old</p>''), (''note.txt'', ''hi'')] =
       Inr ''<p>old</p>''
   \<and> snd (snd (generate_app b64_sample fs_strict llm_page ''b'' [att_note] ''t1'' 2 wd_round1)) =
       [Completion (base_prompt ''b'' @ revision_suffix ''<p>old</p>'')]
   \<and> list_all (leaves_file ''index.html'') [att_note]
   \<and> map_of [(''index.html'', ''<p>old</p>''), (''note.txt'', ''hi'')] ''index.html'' =
       map_of wd_round1 ''index.html''
   \<and> safe_text ''<p>old</p>''
   \<and> read_index_html fs_strict (snd (write_html fs_strict [] (PStr ''<p>old</p>''))) =
       Inr ''<p>old</p>''
   \<and> (1::int) \<le> 1
   \<and> snd (snd (generate_app b64_sample fs_strict llm_page ''b'' [att_note] ''t1'' 1 wd_round1)) =
       [Completion (base_prompt ''b'')]
   \<and> read_index_html fs_strict [] = Inl FileNotFoundError
   \<and> generate_app b64_sample fs_strict llm_page ''b'' [] ''t1'' 2 [] =
       (Inl FileNotFoundError, [], [])"
proof -
  have pl: "plain_name ''note.txt''" by (simp add: plain_name_def printable_def)
  have s: "store_attachments b64_sample fs_strict [att_note] wd_round1 =
      (Inr (), [(''index.html'', ''<p>old</p>''), (''note.txt'', ''hi'')])"
    using pl
    by (simp add: att_note_def wd_round1_def split1_def b64_sample_def write_binary_plain
        put_file_def)
  have e: "store_attachments b64_sample fs_strict [] [] = (Inr (), [])" by simp
  have st: "safe_text ''<p>old</p>''" by (simp add: safe_text_def)
  have r: "read_index_html fs_strict [(''index.html'', ''<p>old</p>''), (''note.txt'', ''hi'')] =
      Inr ''<p>old</p>''"
    using st by (simp add: read_index_html_def decode_text_def)
  have m: "read_index_html fs_strict [] = Inl FileNotFoundError"
    by (simp add: read_index_html_def)
  have a: "list_all (leaves_file ''index.html'') [att_note]"
    using pl by (simp add: leaves_file_def att_note_def)
  show ?thesis
    using s r m a st
      revision_context [OF s, where rn = 2 and html = "''<p>old</p>''" and gen = llm_page
        and b = "''b''" and t = "''t1''" and doc = "''<p>old</p>''" and ?wd0.0 = "[]"]
      revision_context [OF s, where rn = 1 and gen = llm_page and b = "''b''" and t = "''t1''"]
      revision_context [OF e, where rn = 2 and e = FileNotFoundError and gen = llm_page
        and b = "''b''" and t = "''t1''"]
    by simp
qed

text \<open>
  Claim C8 as stated fails: in round 2, with the previously generated document
  \<^verbatim>\<open><p>old</p>\<close> in the Working Directory and an attachment named
  \<^verbatim>\<open>index.html\<close>, the attachment is written first and the instruction carries the
  attachment's content, not the previously generated document.
\<close>

theorem revision_context_counterexample:
  "read_index_html fs_strict wd_round1 = Inr ''<p>old</p>''
   \<and> snd (snd (generate_app b64_sample fs_strict llm_page ''b'' [att_index] ''t1'' 2 wd_round1)) =
       [Completion (base_prompt ''b'' @ revision_suffix ''<p>new</p>'')]
   \<and> snd (snd (generate_app b64_sample fs_strict llm_page ''b'' [att_index] ''t1'' 2 wd_round1)) \<noteq>
       [Completion (base_prompt ''b'' @ revision_suffix ''<p>old</p>'')]"
proof -
  have pl: "plain_name ''index.html''" by (simp add: plain_name_def printable_def)
  have s: "store_attachments b64_sample fs_strict [att_index] wd_round1 =
      (Inr (), [(''index.html'', ''<p>new</p>'')])"
    using pl
    by (simp add: att_index_def wd_round1_def split1_def b64_sample_def write_binary_plain
        put_file_def)
  have g: "snd (snd (generate_app b64_sample fs_strict llm_page ''b'' [att_index] ''t1'' 2
                      wd_round1)) =
       [Completion (base_prompt ''b'' @ revision_suffix ''<p>new</p>'')]"
    unfolding generate_app_def s
    by (simp add: build_prompt_def read_index_html_def decode_text_def safe_text_def llm_page_def
        parse_html_def json_loads_def dict_get_default_def write_html_def encode_text_def)
  have r: "read_index_html fs_strict wd_round1 = Inr ''<p>old</p>''"
    by (simp add: wd_round1_def read_index_html_def decode_text_def safe_text_def)
  have n: "revision_suffix ''<p>new</p>'' \<noteq> revision_suffix ''<p>old</p>''"
    by (simp add: revision_suffix_def)
  from r g n show ?thesis by simp
qed

text \<open>
  Claim C10. An attachment whose name and url are both present and non-empty but whose url
  has no comma is not skipped: \<^verbatim>\<open>generate_app\<close> raises \<open>ValueError\<close> at the
  unpacking of the split, before anything is written and before the generation service
  is asked, and the run of \<^verbatim>\<open>process_request\<close> ends with that exception and an
  unchanged world: no document, no repository, no notification. This holds for every
  such attachment at the head of the sequence; \<open>att_no_comma\<close> is one.
\<close>

theorem malformed_attachment_aborts:
  assumes "attachments d = a # rest"
    and "name a = Some n" and "n \<noteq> []" and "url a = Some u" and "u \<noteq> []"
    and "CHR '','' \<notin> set u"
  shows "generate_app dec fs gen b (a # rest) t rn wd = (Inl ValueError, wd, [])
    \<and> process_request en d w = (Inl ValueError, w)"
proof -
  have s: "store_attachments dec' fs' (a # rest) wd' = (Inl ValueError, wd')" for dec' fs' wd'
    using assms by (intro store_attachments_no_comma)
  have g: "generate_app dec' fs' gen' b' (a # rest) t' rn' wd' = (Inl ValueError, wd', [])"
    for dec' fs' gen' b' t' rn' wd'
    unfolding generate_app_def s by simp
  show ?thesis
    by (simp add: process_request_def assms(1) g)
qed

theorem malformed_attachment_aborts_witness:
  "attachments (sample_request\<lparr>attachments := [att_no_comma]\<rparr>) = att_no_comma # []
   \<and> name att_no_comma = Some ''note.txt'' \<and> ''note.txt'' \<noteq> []
   \<and> url att_no_comma = Some ''aGk='' \<and> ''aGk='' \<noteq> [] \<and> CHR '','' \<notin> set ''aGk=''
   \<and> generate_app b64_sample fs_strict llm_page ''b'' [att_no_comma] ''t1'' 1 [] =
       (Inl ValueError, [], [])
   \<and> process_request sample_env (sample_request\<lparr>attachments := [att_no_comma]\<rparr>) fresh_world =
       (Inl ValueError, fresh_world)"
proof -
  have 1: "attachments (sample_request\<lparr>attachments := [att_no_comma]\<rparr>) = att_no_comma # []"
    by simp
  have 2: "name att_no_comma = Some ''note.txt''" by (simp add: att_no_comma_def)
  have 3: "''note.txt'' \<noteq> []" by simp
  have 4: "url att_no_comma = Some ''aGk=''" by (simp add: att_no_comma_def)
  have 5: "''aGk='' \<noteq> []" by simp
  have 6: "CHR '','' \<notin> set ''aGk=''" by simp
  show ?thesis
    using 1 2 3 4 5 6
      malformed_attachment_aborts [OF 1 2 3 4 5 6, where dec = b64_sample and fs = fs_strict
        and gen = llm_page and b = "''b''" and t = "''t1''" and rn = 1 and wd = "[]"
        and en = sample_env and w = fresh_world]
    by simp
qed

section \<open>The Artifact Store Adapter\<close>

lemma ensure_repository_first_call:
  "rn = 1 \<Longrightarrow> \<exists>rest. snd (snd (ensure_repository t rn a)) = CreateRepo (task_repo_name t) # rest"
  by (auto simp: ensure_repository_def create_repo_def Let_def
      split: prod.splits sum.splits option.splits)

text \<open>The calls a run makes to the host for its repository are those of lines 28 to 31.\<close>

lemma process_request_calls:
  "fst (generate_app (b64decode en) (files_env en) (llm en) (brief d) (attachments d) (task d) (round_num d)
          (workdir w)) = Inr () \<Longrightarrow>
   calls (snd (process_request en d w)) =
     calls w @ snd (snd (ensure_repository (task d) (round_num d) (acct w)))"
  by (auto simp: process_request_def split: prod.splits sum.splits)

text \<open>
  Claim C5. In round 1 the first call to the host is the creation of the repository
  \<^verbatim>\<open>task-<task_id>\<close>. When the creation fails with status 422, which is what the host
  answers when the name exists, the repository is fetched by name and the account is as
  it was; when the name is free the new, empty repository is returned and is in the
  account. In every round above 1 the only call is the fetch by name and the account is
  unchanged: nothing is created. A run of \<^verbatim>\<open>process_request\<close> whose generation step
  has returned makes exactly these calls.
\<close>

theorem repository_acquisition:
  "(rn = 1 \<longrightarrow>
      (\<exists>rest. snd (snd (ensure_repository t rn a)) = CreateRepo (task_repo_name t) # rest)
      \<and> (user_create_repo (task_repo_name t) a = (Inl (GithubException 422), a) \<longrightarrow>
           ensure_repository t rn a =
             (user_get_repo (task_repo_name t) a, a,
              [CreateRepo (task_repo_name t), GetRepo (task_repo_name t)]))
      \<and> (create_fault a = None \<and> map_of (repos a) (task_repo_name t) = Some r \<longrightarrow>
           ensure_repository t rn a =
             (Inr r, a, [CreateRepo (task_repo_name t), GetRepo (task_repo_name t)]))
      \<and> (create_fault a = None \<and> map_of (repos a) (task_repo_name t) = None \<longrightarrow>
           ensure_repository t rn a =
             (Inr \<lparr>full_name = login a @ ''/'' @ task_repo_name t, files = [], commits = []\<rparr>,
              a\<lparr>repos := repos a @ [(task_repo_name t,
                   \<lparr>full_name = login a @ ''/'' @ task_repo_name t, files = [], commits = []\<rparr>)]\<rparr>,
              [CreateRepo (task_repo_name t)])))
   \<and> (rn > 1 \<longrightarrow>
      ensure_repository t rn a =
        (user_get_repo (task_repo_name t) a, a, [GetRepo (task_repo_name t)]))
   \<and> (fst (generate_app (b64decode en) (files_env en) (llm en) (brief d) (attachments d) (task d) (round_num d)
              (workdir w)) = Inr () \<longrightarrow>
      calls (snd (process_request en d w)) =
        calls w @ snd (snd (ensure_repository (task d) (round_num d) (acct w))))"
proof (intro conjI impI)
  assume "rn = 1"
  then show "\<exists>rest. snd (snd (ensure_repository t rn a)) = CreateRepo (task_repo_name t) # rest"
    by (rule ensure_repository_first_call)
next
  assume "rn = 1" "user_create_repo (task_repo_name t) a = (Inl (GithubException 422), a)"
  then show "ensure_repository t rn a =
             (user_get_repo (task_repo_name t) a, a,
              [CreateRepo (task_repo_name t), GetRepo (task_repo_name t)])"
    by (simp add: ensure_repository_def create_repo_def exn_status_def Let_def)
next
  assume "rn = 1" "create_fault a = None \<and> map_of (repos a) (task_repo_name t) = Some r"
  then show "ensure_repository t rn a =
             (Inr r, a, [CreateRepo (task_repo_name t), GetRepo (task_repo_name t)])"
    by (simp add: ensure_repository_def create_repo_def exn_status_def user_create_repo_def
        user_get_repo_def Let_def)
next
  assume "rn = 1" "create_fault a = None \<and> map_of (repos a) (task_repo_name t) = None"
  then show "ensure_repository t rn a =
             (Inr \<lparr>full_name = login a @ ''/'' @ task_repo_name t, files = [], commits = []\<rparr>,
              a\<lparr>repos := repos a @ [(task_repo_name t,
                   \<lparr>full_name = login a @ ''/'' @ task_repo_name t, files = [], commits = []\<rparr>)]\<rparr>,
              [CreateRepo (task_repo_name t)])"
    by (simp add: ensure_repository_def create_repo_def user_create_repo_def Let_def)
next
  assume "rn > 1"
  then show "ensure_repository t rn a =
        (user_get_repo (task_repo_name t) a, a, [GetRepo (task_repo_name t)])"
    by (simp add: ensure_repository_def)
next
  assume "fst (generate_app (b64decode en) (files_env en) (llm en) (brief d) (attachments d) (task d)
                (round_num d) (workdir w)) = Inr ()"
  then show "calls (snd (process_request en d w)) =
        calls w @ snd (snd (ensure_repository (task d) (round_num d) (acct w)))"
    by (rule process_request_calls)
qed

theorem repository_acquisition_witness:
  "ensure_repository ''t1'' 1 fresh_account =
     (Inr fresh_repo, account_with_repo, [CreateRepo ''task-t1''])
   \<and> user_create_repo (task_repo_name ''t1'') account_with_repo =
       (Inl (GithubException 422), account_with_repo)
   \<and> ensure_repository ''t1'' 1 account_with_repo =
       (Inr fresh_repo, account_with_repo, [CreateRepo ''task-t1'', GetRepo ''task-t1''])
   \<and> ensure_repository ''t1'' 2 account_with_repo =
       (Inr fresh_repo, account_with_repo, [GetRepo ''task-t1''])
   \<and> ensure_repository ''t1'' 2 fresh_account =
       (Inl (GithubException 404), fresh_account, [GetRepo ''task-t1''])
   \<and> fst (generate_app (b64decode sample_env) (files_env sample_env) (llm sample_env)
            (brief sample_request)
            (attachments sample_request) (task sample_request) (round_num sample_request)
            (workdir fresh_world)) = Inr ()
   \<and> calls (snd (process_request sample_env sample_request fresh_world)) =
       [CreateRepo ''task-t1'']"
proof -
  have n: "task_repo_name ''t1'' = ''task-t1''" by (simp add: task_repo_name_def)
  have f: "create_fault fresh_account = None \<and>
      map_of (repos fresh_account) (task_repo_name ''t1'') = None"
    by (simp add: fresh_account_def)
  have w: "create_fault account_with_repo = None \<and>
      map_of (repos account_with_repo) (task_repo_name ''t1'') = Some fresh_repo"
    by (simp add: account_with_repo_def n)
  have c: "user_create_repo (task_repo_name ''t1'') account_with_repo =
       (Inl (GithubException 422), account_with_repo)"
    using w by (simp add: user_create_repo_def)
  have g1: "user_get_repo ''task-t1'' account_with_repo = Inr fresh_repo"
    by (simp add: user_get_repo_def account_with_repo_def)
  have g2: "user_get_repo ''task-t1'' fresh_account = Inl (GithubException 404)"
    by (simp add: user_get_repo_def fresh_account_def)
  have a: "fresh_account\<lparr>repos := repos fresh_account @ [(''task-t1'', fresh_repo)]\<rparr> =
     account_with_repo"
    by (simp add: fresh_account_def account_with_repo_def)
  have b: "\<lparr>full_name = login fresh_account @ ''/task-t1'', files = [], commits = []\<rparr> =
     fresh_repo"
    by (simp add: fresh_account_def fresh_repo_def)
  have p: "fst (generate_app (b64decode sample_env) (files_env sample_env) (llm sample_env)
            (brief sample_request)
            (attachments sample_request) (task sample_request) (round_num sample_request)
            (workdir fresh_world)) = Inr ()"
    by (simp add: sample_env_def sample_request_def fresh_world_def generate_app_def
        att_note_def split1_def b64_sample_def build_prompt_def llm_page_def parse_html_def
        json_loads_def dict_get_default_def write_html_def write_binary_def open_for_write_def
        plain_name_def printable_def encode_text_def safe_text_def)
  have q: "task sample_request = ''t1'' \<and> round_num sample_request = 1 \<and>
      acct fresh_world = fresh_account \<and> calls fresh_world = []"
    by (simp add: sample_request_def fresh_world_def)
  show ?thesis
    using f w c p
      repository_acquisition [of 1 "''t1''" fresh_account]
      repository_acquisition [of 1 "''t1''" account_with_repo fresh_repo]
      repository_acquisition [of 2 "''t1''" account_with_repo]
      repository_acquisition [of 2 "''t1''" fresh_account _ sample_env sample_request fresh_world]
    by (simp add: n g1 g2 a b q)
qed

lemma update_absent: "map_of al k = None \<Longrightarrow> AList.update k v al = al @ [(k, v)]"
  by (induction al) (auto split: if_splits)

lemma update_same: "map_of al k = Some v \<Longrightarrow> AList.update k v al = al"
  by (induction al) (auto split: if_splits)

text \<open>
  One turn of the upload loop never fails on this host: an existing file is updated with
  the hash just read, an absent one is created. Either way the file then has the local
  content.
\<close>

lemma upload_file_files:
  "\<exists>msg. upload_file n data r =
     (Inr (), r\<lparr>files := AList.update n data (files r), commits := push_commit msg r\<rparr>)"
proof (cases "map_of (files r) n")
  case None
  then show ?thesis
    by (intro exI [of _ "''Add '' @ n"])
       (simp add: upload_file_def repo_get_contents_def repo_create_file_def update_absent)
next
  case (Some old)
  then show ?thesis
    by (intro exI [of _ "''Update '' @ n"])
       (simp add: upload_file_def repo_get_contents_def repo_update_file_def)
qed

lemma upload_file_same:
  assumes "map_of (files r) n = Some data"
  shows "upload_file n data r = (Inr (), r\<lparr>commits := push_commit (''Update '' @ n) r\<rparr>)"
  using assms
  by (simp add: upload_file_def repo_get_contents_def repo_update_file_def update_same)

lemma upload_loop_ok:
  "\<exists>r1. upload_loop wd r = (Inr (), r1) \<and> full_name r1 = full_name r
     \<and> length (commits r1) = length (commits r) + length wd
     \<and> (\<forall>k. map_of (files r1) k =
           (case map_of (rev wd) k of None \<Rightarrow> map_of (files r) k | Some v \<Rightarrow> Some v))"
proof (induction wd arbitrary: r)
  case Nil
  then show ?case by simp
next
  case (Cons p wd)
  obtain n data where p: "p = (n, data)" by (cases p)
  obtain msg where u: "upload_file n data r =
     (Inr (), r\<lparr>files := AList.update n data (files r), commits := push_commit msg r\<rparr>)"
    using upload_file_files by blast
  let ?r = "r\<lparr>files := AList.update n data (files r), commits := push_commit msg r\<rparr>"
  obtain r1 where r1: "upload_loop wd ?r = (Inr (), r1)" "full_name r1 = full_name ?r"
    "length (commits r1) = length (commits ?r) + length wd"
    "\<forall>k. map_of (files r1) k =
       (case map_of (rev wd) k of None \<Rightarrow> map_of (files ?r) k | Some v \<Rightarrow> Some v)"
    using Cons.IH [of ?r] by blast
  have "upload_loop (p # wd) r = (Inr (), r1)" by (simp add: p u r1(1))
  moreover have "full_name r1 = full_name r" using r1(2) by simp
  moreover have "length (commits r1) = length (commits r) + length (p # wd)"
    using r1(3) by (simp add: push_commit_def)
  moreover have "\<forall>k. map_of (files r1) k =
      (case map_of (rev (p # wd)) k of None \<Rightarrow> map_of (files r) k | Some v \<Rightarrow> Some v)"
    using r1(4) by (auto simp: p update_conv' map_add_def split: option.splits)
  ultimately show ?case by blast
qed

lemma upload_loop_unchanged:
  "\<forall>(n, data)\<in>set wd. map_of (files r) n = Some data \<Longrightarrow>
   \<exists>r1. upload_loop wd r = (Inr (), r1) \<and> files r1 = files r \<and> full_name r1 = full_name r
      \<and> length (commits r1) = length (commits r) + length wd"
proof (induction wd arbitrary: r)
  case Nil
  then show ?case by simp
next
  case (Cons p wd)
  obtain n data where p: "p = (n, data)" by (cases p)
  have "map_of (files r) n = Some data" using Cons.prems p by simp
  then have u: "upload_file n data r = (Inr (), r\<lparr>commits := push_commit (''Update '' @ n) r\<rparr>)"
    by (rule upload_file_same)
  let ?r = "r\<lparr>commits := push_commit (''Update '' @ n) r\<rparr>"
  have "\<forall>(n, data)\<in>set wd. map_of (files ?r) n = Some data" using Cons.prems by simp
  then obtain r1 where "upload_loop wd ?r = (Inr (), r1)" "files r1 = files ?r"
    "full_name r1 = full_name ?r" "length (commits r1) = length (commits ?r) + length wd"
    using Cons.IH [of ?r] by blast
  then show ?case by (simp add: p u push_commit_def)
qed

lemma map_of_rev_distinct:
  "distinct (map fst wd) \<Longrightarrow> (n, data) \<in> set wd \<Longrightarrow> map_of (rev wd) n = Some data"
  by (simp add: map_of_eq_Some_iff [of "rev wd"] distinct_rev rev_map [symmetric])

text \<open>
  Re-running the upload of a round other than the first, with the same Working Directory
  (a directory lists each name once): the second run succeeds, every file takes the
  update path, and the files of the repository are those the first run left.
\<close>

lemma upload_rerun_later_round:
  assumes "rn \<noteq> 1" and "distinct (map fst wd)"
    and "upload_files_to_repo t r rn wd = (Inr c, r1)"
  shows "\<exists>c2 r2. upload_files_to_repo t r1 rn wd = (Inr c2, r2) \<and> files r2 = files r1"
proof -
  obtain ra where ra: "upload_loop wd r = (Inr (), ra)"
    "\<forall>k. map_of (files ra) k =
       (case map_of (rev wd) k of None \<Rightarrow> map_of (files r) k | Some v \<Rightarrow> Some v)"
    using upload_loop_ok [of wd r] by blast
  from assms(1,3) ra(1) have r1: "r1 = ra" and hc: "repo_head_commit ra = Inr c"
    by (auto simp: upload_files_to_repo_def)
  have "\<forall>(n, data)\<in>set wd. map_of (files r1) n = Some data"
    using ra(2) map_of_rev_distinct [OF assms(2)] by (auto simp: r1)
  then obtain r2 where r2: "upload_loop wd r1 = (Inr (), r2)" "files r2 = files r1"
    "length (commits r2) = length (commits r1) + length wd"
    using upload_loop_unchanged [of wd r1] by blast
  from hc have "commits r1 \<noteq> []" by (auto simp: repo_head_commit_def r1 split: list.splits)
  then have "commits r2 \<noteq> []" using r2(3) by auto
  then obtain c2 where "repo_head_commit r2 = Inr c2"
    by (cases "commits r2") (auto simp: repo_head_commit_def)
  then show ?thesis using assms(1) r2 by (simp add: upload_files_to_repo_def)
qed

text \<open>
  Re-running the upload of round 1: the first run has left \<^verbatim>\<open>LICENSE\<close> in the
  repository, and the second run begins by creating it again.
\<close>

lemma upload_bootstrap_license:
  "upload_bootstrap t r = (Inr u, r1) \<Longrightarrow> map_of (files r1) ''LICENSE'' = Some ''MIT License''"
  by (auto simp: upload_bootstrap_def repo_create_file_def map_add_def split: option.splits)

lemma upload_round1_keeps_license:
  assumes "upload_files_to_repo t r 1 wd = (Inr c, r1)"
  shows "map_of (files r1) ''LICENSE'' \<noteq> None"
proof -
  obtain rb where rb: "upload_bootstrap t r = (Inr (), rb)"
    using assms by (auto simp: upload_files_to_repo_def split: prod.splits sum.splits)
  obtain ra where ra: "upload_loop wd rb = (Inr (), ra)"
    "\<forall>k. map_of (files ra) k =
       (case map_of (rev wd) k of None \<Rightarrow> map_of (files rb) k | Some v \<Rightarrow> Some v)"
    using upload_loop_ok [of wd rb] by blast
  have "r1 = ra" using assms rb ra(1) by (auto simp: upload_files_to_repo_def)
  then show ?thesis
    using ra(2) upload_bootstrap_license [OF rb] by (auto split: option.splits)
qed

lemma upload_round1_existing_license:
  "map_of (files r) ''LICENSE'' \<noteq> None \<Longrightarrow>
   upload_files_to_repo t r 1 wd = (Inl (GithubException 422), r)"
  by (auto simp: upload_files_to_repo_def upload_bootstrap_def repo_create_file_def)

lemma upload_rerun_first_round:
  "upload_files_to_repo t r 1 wd = (Inr c, r1) \<Longrightarrow>
   upload_files_to_repo t r1 1 wd = (Inl (GithubException 422), r1)"
  by (rule upload_round1_existing_license) (rule upload_round1_keeps_license)

text \<open>
  Claim C2. The claim asks that re-running the upload with the same Working Directory
  does not fail, for every round. In round 1 it fails. The first run on the fresh
  repository of task \<^verbatim>\<open>t1\<close>, with \<^verbatim>\<open>index.html\<close> in the Working Directory, returns
  the commit of \<^verbatim>\<open>index.html\<close> and leaves three files. The second run on the
  repository so left raises at \<^verbatim>\<open>repo.create_file("LICENSE", ...)\<close>: the two files of
  round 1 are created without the lookup that the loop makes for every other file, and
  the host answers 422 for a path that exists. Nothing is written by the second run.
\<close>

theorem publish_rerun_round1_fails:
  "fst (upload_files_to_repo ''t1'' fresh_repo 1 wd_page) =
     Inr \<lparr>message = ''Add index.html'', sha = 2\<rparr>
   \<and> map fst (files (snd (upload_files_to_repo ''t1'' fresh_repo 1 wd_page))) =
       [''LICENSE'', ''README.md'', ''index.html'']
   \<and> upload_files_to_repo ''t1'' (snd (upload_files_to_repo ''t1'' fresh_repo 1 wd_page)) 1 wd_page =
       (Inl (GithubException 422), snd (upload_files_to_repo ''t1'' fresh_repo 1 wd_page))"
proof -
  have 1: "upload_files_to_repo ''t1'' fresh_repo 1 wd_page =
     (Inr \<lparr>message = ''Add index.html'', sha = 2\<rparr>,
      \<lparr>full_name = ''u/task-t1'',
       files = [(''LICENSE'', ''MIT License''), (''README.md'', readme_content ''t1''),
                (''index.html'', ''<html>ok</html>'')],
       commits = [\<lparr>message = ''Add index.html'', sha = 2\<rparr>,
                  \<lparr>message = ''Add README'', sha = 1\<rparr>,
                  \<lparr>message = ''Add LICENSE'', sha = 0\<rparr>]\<rparr>)"
    by (simp add: upload_files_to_repo_def upload_bootstrap_def repo_create_file_def
        fresh_repo_def wd_page_def upload_file_def repo_get_contents_def push_commit_def
        repo_head_commit_def)
  show ?thesis
    unfolding 1
    by (simp add: upload_files_to_repo_def upload_bootstrap_def repo_create_file_def)
qed

section \<open>The Hosting Publisher\<close>

text \<open>
  Claim C3, as amended. When the enable-hosting request is answered with a status other
  than 201 and the status read is answered with a status other than 200,
  \<^verbatim>\<open>enable_pages\<close> returns \<^verbatim>\<open>None\<close> after these two requests and raises nothing.
  An exception raised by either request is not caught: it leaves \<^verbatim>\<open>enable_pages\<close>.
\<close>

theorem enable_pages_degrades_on_status:
  "(net 0 (POST (pages_endpoint r) pages_source) = Inr resp1 \<and> status_code resp1 \<noteq> 201 \<and>
    net 1 (GET (pages_endpoint r)) = Inr resp2 \<and> status_code resp2 \<noteq> 200 \<longrightarrow>
      enable_pages net r =
        (Inr PNone,
         [Request (POST (pages_endpoint r) pages_source), Request (GET (pages_endpoint r))]))
   \<and> (net 0 (POST (pages_endpoint r) pages_source) = Inl e \<longrightarrow>
      enable_pages net r = (Inl e, [Request (POST (pages_endpoint r) pages_source)]))
   \<and> (net 0 (POST (pages_endpoint r) pages_source) = Inr resp1 \<and> status_code resp1 \<noteq> 201 \<and>
    net 1 (GET (pages_endpoint r)) = Inl e \<longrightarrow>
      enable_pages net r =
        (Inl e,
         [Request (POST (pages_endpoint r) pages_source), Request (GET (pages_endpoint r))]))"
  by (simp add: enable_pages_def Let_def)

theorem enable_pages_degrades_on_status_witness:
  "net_refused 0 (POST (pages_endpoint fresh_repo) pages_source) =
     Inr \<lparr>status_code = 403, body = NotJSON []\<rparr>
   \<and> status_code \<lparr>status_code = 403, body = NotJSON []\<rparr> \<noteq> 201
   \<and> net_refused 1 (GET (pages_endpoint fresh_repo)) = Inr \<lparr>status_code = 404, body = NotJSON []\<rparr>
   \<and> status_code \<lparr>status_code = 404, body = NotJSON []\<rparr> \<noteq> 200
   \<and> enable_pages net_refused fresh_repo =
       (Inr PNone, [Request (POST (pages_endpoint fresh_repo) pages_source),
                    Request (GET (pages_endpoint fresh_repo))])
   \<and> net_down 0 (POST (pages_endpoint fresh_repo) pages_source) = Inl RequestException
   \<and> enable_pages net_down fresh_repo =
       (Inl RequestException, [Request (POST (pages_endpoint fresh_repo) pages_source)])"
proof -
  have 1: "net_refused 0 (POST (pages_endpoint fresh_repo) pages_source) =
      Inr \<lparr>status_code = 403, body = NotJSON []\<rparr>"
    by (simp add: net_refused_def)
  have 2: "status_code \<lparr>status_code = 403, body = NotJSON []\<rparr> \<noteq> 201" by simp
  have 3: "net_refused 1 (GET (pages_endpoint fresh_repo)) =
      Inr \<lparr>status_code = 404, body = NotJSON []\<rparr>"
    by (simp add: net_refused_def)
  have 4: "status_code \<lparr>status_code = 404, body = NotJSON []\<rparr> \<noteq> 200" by simp
  have 5: "net_down 0 (POST (pages_endpoint fresh_repo) pages_source) = Inl RequestException"
    by (simp add: net_down_def)
  show ?thesis
    using 1 2 3 4 5
      enable_pages_degrades_on_status [of net_refused fresh_repo
        "\<lparr>status_code = 403, body = NotJSON []\<rparr>" "\<lparr>status_code = 404, body = NotJSON []\<rparr>"]
      enable_pages_degrades_on_status [of net_down fresh_repo _ _ RequestException]
    by simp
qed

text \<open>
  Claim C3 as stated fails: the enable-hosting request is refused with status 409, the
  status read fails in the transport, and \<^verbatim>\<open>enable_pages\<close> raises that exception
  instead of returning an empty result.
\<close>

theorem enable_pages_raises_counterexample:
  "net_conflict_then_down 0 (POST (pages_endpoint fresh_repo) pages_source) =
     Inr \<lparr>status_code = 409, body = NotJSON []\<rparr>
   \<and> net_conflict_then_down 1 (GET (pages_endpoint fresh_repo)) = Inl RequestException
   \<and> fst (enable_pages net_conflict_then_down fresh_repo) = Inl RequestException"
  by (simp add: enable_pages_def net_conflict_then_down_def Let_def)

section \<open>The whole run\<close>

text \<open>
  A run of round 1 in which the generation service answers with text that is not JSON:
  the fallback document is written, the run goes on, and the document is published in
  the repository of the task.
\<close>

lemma pipeline_publishes_fallback:
  "fst (process_request (sample_env\<lparr>llm := llm_not_json\<rparr>) (sample_request\<lparr>attachments := []\<rparr>)
          fresh_world) = Inr ()
   \<and> workdir (snd (process_request (sample_env\<lparr>llm := llm_not_json\<rparr>)
          (sample_request\<lparr>attachments := []\<rparr>) fresh_world)) = [(''index.html'', fallback_html)]
   \<and> map (\<lambda>(n, r). (n, map_of (files r) ''index.html''))
        (repos (acct (snd (process_request (sample_env\<lparr>llm := llm_not_json\<rparr>)
          (sample_request\<lparr>attachments := []\<rparr>) fresh_world)))) =
       [(''task-t1'', Some fallback_html)]"
proof -
  have g: "generate_app b64_sample fs_strict llm_not_json ''b'' [] ''t1'' 1 [] =
      (Inr (), [(''index.html'', fallback_html)], [Completion (base_prompt ''b'')])"
    using safe_fallback_html
    by (simp add: generate_app_def build_prompt_def llm_not_json_def parse_html_def
        json_loads_def write_html_def put_file_def encode_text_def)
  have e: "ensure_repository ''t1'' 1 fresh_account =
     (Inr fresh_repo, account_with_repo, [CreateRepo ''task-t1''])"
    by (simp add: ensure_repository_def create_repo_def user_create_repo_def Let_def
        fresh_account_def account_with_repo_def fresh_repo_def task_repo_name_def)
  have u: "upload_files_to_repo ''t1'' fresh_repo 1 [(''index.html'', fallback_html)] =
     (Inr \<lparr>message = ''Add index.html'', sha = 2\<rparr>,
      \<lparr>full_name = ''u/task-t1'',
       files = [(''LICENSE'', ''MIT License''), (''README.md'', readme_content ''t1''),
                (''index.html'', fallback_html)],
       commits = [\<lparr>message = ''Add index.html'', sha = 2\<rparr>,
                  \<lparr>message = ''Add README'', sha = 1\<rparr>,
                  \<lparr>message = ''Add LICENSE'', sha = 0\<rparr>]\<rparr>)"
    by (simp add: upload_files_to_repo_def upload_bootstrap_def repo_create_file_def
        fresh_repo_def upload_file_def repo_get_contents_def push_commit_def
        repo_head_commit_def)
  have n: "notify_attempts net_ok req 0 4 (Suc 0) = (Inr (), [Request req])" for req
    using notify_attempts_success_at [of 0 4 net_ok 0 req "Suc 0"]
    by (simp add: attempt_accepted_def net_ok_def)
  show ?thesis
    by (simp add: process_request_def sample_env_def sample_request_def fresh_world_def g e u n
        enable_pages_def net_pages_created_def response_html_url_def json_loads_def dict_get_def
        Let_def notify_evaluation_def build_payload_def dict_del_def net_ok_def store_repo_def
        task_repo_name_def account_with_repo_def split: prod.splits)
qed

end
